theory Spec2Isabelle
  imports Main "HOL-Library.Sublist"
begin

section \<open>Data model\<close>

text \<open>
  The controller of \<^verbatim>\<open>pkg/operator/controller/ingress-routes/controller.go\<close> (package
  \<^verbatim>\<open>ingressroutes\<close>, the version of the file with the hash label) reads the component
  routes of the cluster ingress config and keeps one role and one role binding per route
  that is in both the spec and the status. The API types keep the fields the controller
  reads.
\<close>

record SecretNameReference =
  secret_Name :: string

record ComponentRouteSpec =
  spec_Namespace :: string
  spec_Name :: string
  spec_Hostname :: string
  spec_ServingCertKeyPairSecret :: SecretNameReference

record ComponentRouteStatus =
  status_Namespace :: string
  status_Name :: string
  status_DefaultHostname :: string
  status_ConsumingUsers :: "string list"
  status_CurrentHostnames :: "string list"

record Ingress =
  Spec_ComponentRoutes :: "ComponentRouteSpec list"
  Status_ComponentRoutes :: "ComponentRouteStatus list"

text \<open>\<^verbatim>\<open>aggregatedComponentRoute\<close>: what a role and a role binding are generated from.\<close>

record aggregatedComponentRoute =
  cr_Name :: string
  cr_Hash :: string
  cr_ServingCertificateName :: string
  cr_ConsumingUsers :: "string list"

text \<open>
  \<^verbatim>\<open>metav1.ObjectMeta\<close> is embedded in \<^verbatim>\<open>rbacv1.Role\<close> and \<^verbatim>\<open>rbacv1.RoleBinding\<close>;
  the records extend it the same way.
\<close>

record ObjectMeta =
  Name :: string
  GenerateName :: string
  Namespace :: string
  Labels :: "string \<rightharpoonup> string"

record PolicyRule =
  Verbs :: "string list"
  APIGroups :: "string list"
  Resources :: "string list"
  ResourceNames :: "string list"

record Subject =
  subject_Kind :: string
  subject_Name :: string
  subject_APIGroup :: string

record RoleRef =
  ref_Kind :: string
  ref_Name :: string
  ref_APIGroup :: string

record Role = ObjectMeta +
  Rules :: "PolicyRule list"

record RoleBinding = ObjectMeta +
  Subjects :: "Subject list"
  RoleRef :: RoleRef

definition componentRouteHashLabelKey :: string where
  "componentRouteHashLabelKey = ''ingress.operator.openshift.io/componentroutehash''"

text \<open>\<^verbatim>\<open>rbacv1.ServiceAccountKind\<close>, a constant of the Kubernetes API.\<close>

definition ServiceAccountKind :: string where
  "ServiceAccountKind = ''ServiceAccount''"

section \<open>The intersection of spec and status\<close>

text \<open>\<^verbatim>\<open>fmt.Sprintf("%s/%s", namespace, name)\<close>\<close>

definition namespacedName :: "string \<Rightarrow> string \<Rightarrow> string" where
  "namespacedName namespace name = namespace @ ''/'' @ name"

text \<open>
  \<^verbatim>\<open>util.Hash\<close> is imported from another package: the functions that call it take it as
  the parameter \<open>Hash\<close>.
\<close>

definition newAggregatedComponentRoute ::
  "(string \<Rightarrow> string) \<Rightarrow> ComponentRouteSpec \<Rightarrow> ComponentRouteStatus \<Rightarrow> aggregatedComponentRoute" where
  "newAggregatedComponentRoute Hash spec status =
     \<lparr>cr_Name = spec_Name spec,
      cr_Hash = Hash (namespacedName (spec_Namespace spec) (spec_Name spec)),
      cr_ServingCertificateName = secret_Name (spec_ServingCertKeyPairSecret spec),
      cr_ConsumingUsers = status_ConsumingUsers status\<rparr>"

text \<open>
  The first loop fills a Go map from hash to status (a later status with the same hash
  overwrites an earlier one); the second loop walks the spec entries in order and appends
  a route for each one whose hash is a key of the map.
\<close>

fun statusesByHash ::
  "(string \<Rightarrow> string) \<Rightarrow> ComponentRouteStatus list \<Rightarrow> (string \<rightharpoonup> ComponentRouteStatus)
     \<Rightarrow> (string \<rightharpoonup> ComponentRouteStatus)" where
  "statusesByHash Hash [] componentRouteHashToComponentRouteStatus =
     componentRouteHashToComponentRouteStatus"
| "statusesByHash Hash (componentRoute # rest) componentRouteHashToComponentRouteStatus =
     statusesByHash Hash rest
       (componentRouteHashToComponentRouteStatus
          (Hash (namespacedName (status_Namespace componentRoute) (status_Name componentRoute))
             \<mapsto> componentRoute))"

fun appendIntersecting ::
  "(string \<Rightarrow> string) \<Rightarrow> (string \<rightharpoonup> ComponentRouteStatus) \<Rightarrow> ComponentRouteSpec list
     \<Rightarrow> aggregatedComponentRoute list \<Rightarrow> aggregatedComponentRoute list" where
  "appendIntersecting Hash componentRouteHashToComponentRouteStatus [] componentRoutes =
     componentRoutes"
| "appendIntersecting Hash componentRouteHashToComponentRouteStatus (componentRouteSpec # rest)
       componentRoutes =
     (case componentRouteHashToComponentRouteStatus
             (Hash (namespacedName (spec_Namespace componentRouteSpec)
                                   (spec_Name componentRouteSpec))) of
        Some componentRouteStatus \<Rightarrow>
          appendIntersecting Hash componentRouteHashToComponentRouteStatus rest
            (componentRoutes @
               [newAggregatedComponentRoute Hash componentRouteSpec componentRouteStatus])
      | None \<Rightarrow>
          appendIntersecting Hash componentRouteHashToComponentRouteStatus rest componentRoutes)"

definition intersectingComponentRoutes ::
  "(string \<Rightarrow> string) \<Rightarrow> ComponentRouteSpec list \<Rightarrow> ComponentRouteStatus list
     \<Rightarrow> aggregatedComponentRoute list" where
  "intersectingComponentRoutes Hash componentRouteSpecs componentRouteStatuses =
     appendIntersecting Hash (statusesByHash Hash componentRouteStatuses Map.empty)
       componentRouteSpecs []"

text \<open>The correlation key of a spec entry and of a status entry, as both loops compute it.\<close>

definition specKey :: "(string \<Rightarrow> string) \<Rightarrow> ComponentRouteSpec \<Rightarrow> string" where
  "specKey Hash d = Hash (namespacedName (spec_Namespace d) (spec_Name d))"

definition statusKey :: "(string \<Rightarrow> string) \<Rightarrow> ComponentRouteStatus \<Rightarrow> string" where
  "statusKey Hash st = Hash (namespacedName (status_Namespace st) (status_Name st))"

section \<open>The collaborators: cache and client\<close>

text \<open>
  The cache (\<^verbatim>\<open>Get\<close>, \<^verbatim>\<open>List\<close>) and the client (\<^verbatim>\<open>Create\<close>, \<^verbatim>\<open>Update\<close>,
  \<^verbatim>\<open>Delete\<close>) belong to controller-runtime, not to this repository. They are parameters of
  the model: each operation is a function on an abstract world \<open>'w\<close> that returns the call's
  result and the world after the call. An \<^verbatim>\<open>error\<close> of the API is one of the two kinds the
  controller tests for, or anything else.
\<close>

datatype apiError = NotFound | AlreadyExists | Failure string

fun IsNotFound :: "apiError \<Rightarrow> bool" where
  "IsNotFound NotFound = True"
| "IsNotFound _ = False"

text \<open>The key of a request: \<^verbatim>\<open>types.NamespacedName\<close>.\<close>

record NamespacedName =
  nn_Namespace :: string
  nn_Name :: string

text \<open>
  The errors the controller returns: an API error handed on as it is, or a new error made by
  \<^verbatim>\<open>fmt.Errorf\<close> from a format string and its arguments (none, an error, or a request
  and an error).
\<close>

datatype error =
    ClientError apiError
  | Errorf string
  | ErrorfV string error
  | ErrorfQV string NamespacedName error

datatype ListOption =
    MatchingLabels "string \<rightharpoonup> string"
  | HasLabels "string list"
  | InNamespace string

record Result =
  Requeue :: bool

text \<open>
  One event per call the controller makes, with the answer it got. \<^verbatim>\<open>List\<close> fills the list
  it is given and returns an error; \<^verbatim>\<open>Create\<close> writes the server's version of the object
  (its generated name) into the object it is given.
\<close>

datatype event =
    CacheGet NamespacedName "apiError + Ingress"
  | CacheListRoles "ListOption list" "apiError option" "Role list"
  | CacheListRoleBindings "ListOption list" "apiError option" "RoleBinding list"
  | ClientCreateRole Role "apiError + Role"
  | ClientCreateRoleBinding RoleBinding "apiError option"
  | ClientUpdateRole Role "apiError option"
  | ClientUpdateRoleBinding RoleBinding "apiError option"
  | ClientDeleteRole Role "apiError option"
  | ClientDeleteRoleBinding RoleBinding "apiError option"

text \<open>
  The \<^verbatim>\<open>reconciler\<close> struct: its config, its cache and its client. \<open>util_Hash\<close> and
  \<open>OpenShiftConfigNamespace\<close> stand for \<^verbatim>\<open>util.Hash\<close> and
  \<^verbatim>\<open>operatorcontroller.OpenShiftConfigNamespace\<close>, which the controller imports from other
  packages: the model takes them as parameters.
\<close>

record 'w reconciler =
  config_SecretNamespace :: string
  util_Hash :: "string \<Rightarrow> string"
  OpenShiftConfigNamespace :: string
  cache_Get :: "NamespacedName \<Rightarrow> 'w \<Rightarrow> (apiError + Ingress) \<times> 'w"
  cache_ListRoles :: "ListOption list \<Rightarrow> 'w \<Rightarrow> (apiError option \<times> Role list) \<times> 'w"
  cache_ListRoleBindings ::
    "ListOption list \<Rightarrow> 'w \<Rightarrow> (apiError option \<times> RoleBinding list) \<times> 'w"
  client_CreateRole :: "Role \<Rightarrow> 'w \<Rightarrow> (apiError + Role) \<times> 'w"
  client_CreateRoleBinding :: "RoleBinding \<Rightarrow> 'w \<Rightarrow> apiError option \<times> 'w"
  client_UpdateRole :: "Role \<Rightarrow> 'w \<Rightarrow> apiError option \<times> 'w"
  client_UpdateRoleBinding :: "RoleBinding \<Rightarrow> 'w \<Rightarrow> apiError option \<times> 'w"
  client_DeleteRole :: "Role \<Rightarrow> 'w \<Rightarrow> apiError option \<times> 'w"
  client_DeleteRoleBinding :: "RoleBinding \<Rightarrow> 'w \<Rightarrow> apiError option \<times> 'w"

text \<open>The state a reconciliation runs in: the world, and the calls made so far.\<close>

record 'w state =
  world :: 'w
  trace :: "event list"

definition Get ::
  "'w reconciler \<Rightarrow> NamespacedName \<Rightarrow> 'w state \<Rightarrow> (apiError + Ingress) \<times> 'w state" where
  "Get r key s =
     (case cache_Get r key (world s) of
        (res, w) \<Rightarrow> (res, \<lparr>world = w, trace = trace s @ [CacheGet key res]\<rparr>))"

definition ListRoles ::
  "'w reconciler \<Rightarrow> ListOption list \<Rightarrow> 'w state \<Rightarrow> (apiError option \<times> Role list) \<times> 'w state" where
  "ListRoles r opts s =
     (case cache_ListRoles r opts (world s) of
        ((err, items), w) \<Rightarrow>
          ((err, items), \<lparr>world = w, trace = trace s @ [CacheListRoles opts err items]\<rparr>))"

definition ListRoleBindings ::
  "'w reconciler \<Rightarrow> ListOption list \<Rightarrow> 'w state
     \<Rightarrow> (apiError option \<times> RoleBinding list) \<times> 'w state" where
  "ListRoleBindings r opts s =
     (case cache_ListRoleBindings r opts (world s) of
        ((err, items), w) \<Rightarrow>
          ((err, items), \<lparr>world = w, trace = trace s @ [CacheListRoleBindings opts err items]\<rparr>))"

definition CreateRole ::
  "'w reconciler \<Rightarrow> Role \<Rightarrow> 'w state \<Rightarrow> (apiError + Role) \<times> 'w state" where
  "CreateRole r role s =
     (case client_CreateRole r role (world s) of
        (res, w) \<Rightarrow> (res, \<lparr>world = w, trace = trace s @ [ClientCreateRole role res]\<rparr>))"

definition CreateRoleBinding ::
  "'w reconciler \<Rightarrow> RoleBinding \<Rightarrow> 'w state \<Rightarrow> apiError option \<times> 'w state" where
  "CreateRoleBinding r roleBinding s =
     (case client_CreateRoleBinding r roleBinding (world s) of
        (res, w) \<Rightarrow>
          (res, \<lparr>world = w, trace = trace s @ [ClientCreateRoleBinding roleBinding res]\<rparr>))"

definition UpdateRole ::
  "'w reconciler \<Rightarrow> Role \<Rightarrow> 'w state \<Rightarrow> apiError option \<times> 'w state" where
  "UpdateRole r role s =
     (case client_UpdateRole r role (world s) of
        (res, w) \<Rightarrow> (res, \<lparr>world = w, trace = trace s @ [ClientUpdateRole role res]\<rparr>))"

definition UpdateRoleBinding ::
  "'w reconciler \<Rightarrow> RoleBinding \<Rightarrow> 'w state \<Rightarrow> apiError option \<times> 'w state" where
  "UpdateRoleBinding r roleBinding s =
     (case client_UpdateRoleBinding r roleBinding (world s) of
        (res, w) \<Rightarrow>
          (res, \<lparr>world = w, trace = trace s @ [ClientUpdateRoleBinding roleBinding res]\<rparr>))"

definition DeleteRole ::
  "'w reconciler \<Rightarrow> Role \<Rightarrow> 'w state \<Rightarrow> apiError option \<times> 'w state" where
  "DeleteRole r role s =
     (case client_DeleteRole r role (world s) of
        (res, w) \<Rightarrow> (res, \<lparr>world = w, trace = trace s @ [ClientDeleteRole role res]\<rparr>))"

definition DeleteRoleBinding ::
  "'w reconciler \<Rightarrow> RoleBinding \<Rightarrow> 'w state \<Rightarrow> apiError option \<times> 'w state" where
  "DeleteRoleBinding r roleBinding s =
     (case client_DeleteRoleBinding r roleBinding (world s) of
        (res, w) \<Rightarrow>
          (res, \<lparr>world = w, trace = trace s @ [ClientDeleteRoleBinding roleBinding res]\<rparr>))"

section \<open>List options\<close>

definition componentRouteResources ::
  "'w reconciler \<Rightarrow> aggregatedComponentRoute \<Rightarrow> ListOption list" where
  "componentRouteResources r componentRoute =
     [MatchingLabels [componentRouteHashLabelKey \<mapsto> cr_Hash componentRoute],
      InNamespace (OpenShiftConfigNamespace r)]"

definition allComponentRouteResources :: "'w reconciler \<Rightarrow> ListOption list" where
  "allComponentRouteResources r =
     [HasLabels [componentRouteHashLabelKey], InNamespace (OpenShiftConfigNamespace r)]"

section \<open>Garbage collection\<close>

text \<open>\<^verbatim>\<open>existingHashes\<close> is a Go \<^verbatim>\<open>map[string]struct{}\<close>, a set of hashes.\<close>

fun collectHashes :: "aggregatedComponentRoute list \<Rightarrow> string set \<Rightarrow> string set" where
  "collectHashes [] existingHashes = existingHashes"
| "collectHashes (cr # rest) existingHashes =
     collectHashes rest (insert (cr_Hash cr) existingHashes)"

text \<open>The loop over \<^verbatim>\<open>roleList.Items\<close>.\<close>

fun cleanupRoles ::
  "'w reconciler \<Rightarrow> string set \<Rightarrow> Role list \<Rightarrow> 'w state \<Rightarrow> error option \<times> 'w state" where
  "cleanupRoles r existingHashes [] s = (None, s)"
| "cleanupRoles r existingHashes (item # items) s =
     (case Labels item componentRouteHashLabelKey of
        None \<Rightarrow> (Some (Errorf ''Unable to find expected componentRoute hash label''), s)
      | Some expectedHash \<Rightarrow>
          if expectedHash \<notin> existingHashes then
            (case DeleteRole r item s of
               (Some err, s') \<Rightarrow>
                 if \<not> IsNotFound err then (Some (ClientError err), s')
                 else cleanupRoles r existingHashes items s'
             | (None, s') \<Rightarrow> cleanupRoles r existingHashes items s')
          else cleanupRoles r existingHashes items s)"

text \<open>The loop over \<^verbatim>\<open>roleBindingList.Items\<close>.\<close>

fun cleanupRoleBindings ::
  "'w reconciler \<Rightarrow> string set \<Rightarrow> RoleBinding list \<Rightarrow> 'w state \<Rightarrow> error option \<times> 'w state" where
  "cleanupRoleBindings r existingHashes [] s = (None, s)"
| "cleanupRoleBindings r existingHashes (item # items) s =
     (case Labels item componentRouteHashLabelKey of
        None \<Rightarrow> (Some (Errorf ''Unable to find expected componentRoute hash label''), s)
      | Some expectedHash \<Rightarrow>
          if expectedHash \<notin> existingHashes then
            (case DeleteRoleBinding r item s of
               (Some err, s') \<Rightarrow>
                 if \<not> IsNotFound err then (Some (ClientError err), s')
                 else cleanupRoleBindings r existingHashes items s'
             | (None, s') \<Rightarrow> cleanupRoleBindings r existingHashes items s')
          else cleanupRoleBindings r existingHashes items s)"

text \<open>
  Both calls of \<^verbatim>\<open>r.cache.List\<close> are statements of their own: the error they return is
  dropped, and the loops run over whatever the call left in the list.
\<close>

definition cleanupOrphanedResources ::
  "'w reconciler \<Rightarrow> aggregatedComponentRoute list \<Rightarrow> 'w state \<Rightarrow> error option \<times> 'w state" where
  "cleanupOrphanedResources r componentRoutes s =
     (let existingHashes = collectHashes componentRoutes {} in
      case ListRoles r (allComponentRouteResources r) s of
        ((_, roleItems), s1) \<Rightarrow>
          (case cleanupRoles r existingHashes roleItems s1 of
             (Some err, s2) \<Rightarrow> (Some err, s2)
           | (None, s2) \<Rightarrow>
               (case ListRoleBindings r (allComponentRouteResources r) s2 of
                  ((_, roleBindingItems), s3) \<Rightarrow>
                    cleanupRoleBindings r existingHashes roleBindingItems s3)))"

section \<open>Roles and role bindings of one component route\<close>

text \<open>
  \<^verbatim>\<open>for i, curRole := range roleList.Items\<close>: the item at index 0 is skipped, every other
  item is deleted. The argument \<open>i\<close> is the index of the head of the list.
\<close>

fun deleteDuplicateRoles ::
  "'w reconciler \<Rightarrow> nat \<Rightarrow> Role list \<Rightarrow> 'w state \<Rightarrow> apiError option \<times> 'w state" where
  "deleteDuplicateRoles r i [] s = (None, s)"
| "deleteDuplicateRoles r i (curRole # rest) s =
     (if i = 0 then deleteDuplicateRoles r (Suc i) rest s
      else
        (case DeleteRole r curRole s of
           (Some err, s') \<Rightarrow>
             if \<not> IsNotFound err then (Some err, s')
             else deleteDuplicateRoles r (Suc i) rest s'
         | (None, s') \<Rightarrow> deleteDuplicateRoles r (Suc i) rest s'))"

fun deleteDuplicateRoleBindings ::
  "'w reconciler \<Rightarrow> nat \<Rightarrow> RoleBinding list \<Rightarrow> 'w state \<Rightarrow> apiError option \<times> 'w state" where
  "deleteDuplicateRoleBindings r i [] s = (None, s)"
| "deleteDuplicateRoleBindings r i (curRole # rest) s =
     (if i = 0 then deleteDuplicateRoleBindings r (Suc i) rest s
      else
        (case DeleteRoleBinding r curRole s of
           (Some err, s') \<Rightarrow>
             if \<not> IsNotFound err then (Some err, s')
             else deleteDuplicateRoleBindings r (Suc i) rest s'
         | (None, s') \<Rightarrow> deleteDuplicateRoleBindings r (Suc i) rest s'))"

text \<open>The role the controller builds for a component route, before it lists anything.\<close>

definition desiredRole :: "'w reconciler \<Rightarrow> aggregatedComponentRoute \<Rightarrow> Role" where
  "desiredRole r componentRoute =
     \<lparr>Name = [],
      GenerateName = cr_Name componentRoute @ ''-'',
      Namespace = config_SecretNamespace r,
      Labels = [componentRouteHashLabelKey \<mapsto> cr_Hash componentRoute],
      Rules =
        [\<lparr>Verbs = [''get'', ''list'', ''watch''],
          APIGroups = [[]],
          Resources = [''secrets''],
          ResourceNames = [cr_ServingCertificateName componentRoute]\<rparr>]\<rparr>"

text \<open>
  Returns the name of the role, or the error (Go returns the pair of an empty name and the
  error). The \<^verbatim>\<open>owner\<close> argument of the Go function is not used by it and is left out.
  After a create the name is read from the object as the server filled it in. An update
  cannot rename an object, so the name read after the update is the name of the first item.
\<close>

definition ensureServiceCertKeyPairSecretRole ::
  "'w reconciler \<Rightarrow> aggregatedComponentRoute \<Rightarrow> 'w state \<Rightarrow> (apiError + string) \<times> 'w state" where
  "ensureServiceCertKeyPairSecretRole r componentRoute s =
     (let role = desiredRole r componentRoute in
      case ListRoles r (componentRouteResources r componentRoute) s of
        ((Some err, _), s1) \<Rightarrow> (Inl err, s1)
      | ((None, items), s1) \<Rightarrow>
          (case items of
             [] \<Rightarrow>
               (case CreateRole r role s1 of
                  (Inl err, s2) \<Rightarrow> (Inl err, s2)
                | (Inr created, s2) \<Rightarrow> (Inr (Name created), s2))
           | first # _ \<Rightarrow>
               (case deleteDuplicateRoles r 0 items s1 of
                  (Some err, s2) \<Rightarrow> (Inl err, s2)
                | (None, s2) \<Rightarrow>
                    (let existingRole = first\<lparr>Rules := Rules role\<rparr> in
                     case UpdateRole r existingRole s2 of
                       (Some err, s3) \<Rightarrow> (Inl err, s3)
                     | (None, s3) \<Rightarrow> (Inr (Name existingRole), s3)))))"

text \<open>The role binding the controller builds for a component route and a role name.\<close>

definition desiredRoleBinding ::
  "'w reconciler \<Rightarrow> aggregatedComponentRoute \<Rightarrow> string \<Rightarrow> RoleBinding" where
  "desiredRoleBinding r componentRoute roleName =
     \<lparr>Name = roleName,
      GenerateName = [],
      Namespace = config_SecretNamespace r,
      Labels = [componentRouteHashLabelKey \<mapsto> cr_Hash componentRoute],
      Subjects =
        map (\<lambda>serviceAccountName.
               \<lparr>subject_Kind = ServiceAccountKind,
                subject_Name = serviceAccountName,
                subject_APIGroup = []\<rparr>)
            (cr_ConsumingUsers componentRoute),
      RoleRef =
        \<lparr>ref_Kind = ''Role'', ref_Name = roleName,
         ref_APIGroup = ''rbac.authorization.k8s.io''\<rparr>\<rparr>"

definition ensureServiceCertKeyPairSecretRoleBinding ::
  "'w reconciler \<Rightarrow> aggregatedComponentRoute \<Rightarrow> string \<Rightarrow> 'w state
     \<Rightarrow> apiError option \<times> 'w state" where
  "ensureServiceCertKeyPairSecretRoleBinding r componentRoute roleName s =
     (let roleBinding = desiredRoleBinding r componentRoute roleName in
      case ListRoleBindings r (componentRouteResources r componentRoute) s of
        ((Some err, _), s1) \<Rightarrow> (Some err, s1)
      | ((None, items), s1) \<Rightarrow>
          (case items of
             [] \<Rightarrow> CreateRoleBinding r roleBinding s1
           | first # _ \<Rightarrow>
               (case deleteDuplicateRoleBindings r 0 items s1 of
                  (Some err, s2) \<Rightarrow> (Some err, s2)
                | (None, s2) \<Rightarrow>
                    (let existingRoleBinding =
                           first\<lparr>Subjects := Subjects roleBinding, RoleRef := RoleRef roleBinding\<rparr>
                     in UpdateRoleBinding r existingRoleBinding s2))))"

section \<open>Reconcile\<close>

text \<open>The loop of \<^verbatim>\<open>Reconcile\<close> over the intersecting component routes.\<close>

fun ensureComponentRoutes ::
  "'w reconciler \<Rightarrow> aggregatedComponentRoute list \<Rightarrow> 'w state \<Rightarrow> error option \<times> 'w state" where
  "ensureComponentRoutes r [] s = (None, s)"
| "ensureComponentRoutes r (componentRoute # rest) s =
     (case ensureServiceCertKeyPairSecretRole r componentRoute s of
        (Inl err, s1) \<Rightarrow> (Some (ErrorfV ''failed to create role: %v'' (ClientError err)), s1)
      | (Inr roleName, s1) \<Rightarrow>
          (case ensureServiceCertKeyPairSecretRoleBinding r componentRoute roleName s1 of
             (Some err, s2) \<Rightarrow>
               (Some (ErrorfV ''failed to create rolebinding: %v'' (ClientError err)), s2)
           | (None, s2) \<Rightarrow> ensureComponentRoutes r rest s2))"

definition Reconcile ::
  "'w reconciler \<Rightarrow> NamespacedName \<Rightarrow> 'w state \<Rightarrow> (Result \<times> error option) \<times> 'w state" where
  "Reconcile r request s =
     (case Get r request s of
        (Inl err, s1) \<Rightarrow>
          if IsNotFound err then ((\<lparr>Requeue = False\<rparr>, None), s1)
          else ((\<lparr>Requeue = False\<rparr>,
                 Some (ErrorfQV ''failed to get ingress %q: %v'' request (ClientError err))), s1)
      | (Inr ingress, s1) \<Rightarrow>
          (let componentRoutes =
                 intersectingComponentRoutes (util_Hash r)
                   (Spec_ComponentRoutes ingress) (Status_ComponentRoutes ingress)
           in case ensureComponentRoutes r componentRoutes s1 of
                (Some err, s2) \<Rightarrow> ((\<lparr>Requeue = True\<rparr>, Some err), s2)
              | (None, s2) \<Rightarrow>
                  (case cleanupOrphanedResources r componentRoutes s2 of
                     (Some err, s3) \<Rightarrow>
                       ((\<lparr>Requeue = True\<rparr>, Some (ErrorfV ''failed to delete role: %v'' err)), s3)
                   | (None, s3) \<Rightarrow> ((\<lparr>Requeue = False\<rparr>, None), s3))))"

section \<open>Reading a trace\<close>

text \<open>The events a state has gained since an earlier state.\<close>

definition since :: "'w state \<Rightarrow> 'w state \<Rightarrow> event list" where
  "since s s' = drop (length (trace s)) (trace s')"

fun listedRoles :: "event list \<Rightarrow> Role list" where
  "listedRoles [] = []"
| "listedRoles (CacheListRoles opts err items # tr) = items @ listedRoles tr"
| "listedRoles (ev # tr) = listedRoles tr"

fun listedRoleBindings :: "event list \<Rightarrow> RoleBinding list" where
  "listedRoleBindings [] = []"
| "listedRoleBindings (CacheListRoleBindings opts err items # tr) = items @ listedRoleBindings tr"
| "listedRoleBindings (ev # tr) = listedRoleBindings tr"

fun createdRoles :: "event list \<Rightarrow> Role list" where
  "createdRoles [] = []"
| "createdRoles (ClientCreateRole role res # tr) = role # createdRoles tr"
| "createdRoles (ev # tr) = createdRoles tr"

fun createdRoleBindings :: "event list \<Rightarrow> RoleBinding list" where
  "createdRoleBindings [] = []"
| "createdRoleBindings (ClientCreateRoleBinding roleBinding res # tr) =
     roleBinding # createdRoleBindings tr"
| "createdRoleBindings (ev # tr) = createdRoleBindings tr"

fun updatedRoles :: "event list \<Rightarrow> Role list" where
  "updatedRoles [] = []"
| "updatedRoles (ClientUpdateRole role res # tr) = role # updatedRoles tr"
| "updatedRoles (ev # tr) = updatedRoles tr"

fun updatedRoleBindings :: "event list \<Rightarrow> RoleBinding list" where
  "updatedRoleBindings [] = []"
| "updatedRoleBindings (ClientUpdateRoleBinding roleBinding res # tr) =
     roleBinding # updatedRoleBindings tr"
| "updatedRoleBindings (ev # tr) = updatedRoleBindings tr"

fun deletedRoles :: "event list \<Rightarrow> Role list" where
  "deletedRoles [] = []"
| "deletedRoles (ClientDeleteRole role res # tr) = role # deletedRoles tr"
| "deletedRoles (ev # tr) = deletedRoles tr"

fun deletedRoleBindings :: "event list \<Rightarrow> RoleBinding list" where
  "deletedRoleBindings [] = []"
| "deletedRoleBindings (ClientDeleteRoleBinding roleBinding res # tr) =
     roleBinding # deletedRoleBindings tr"
| "deletedRoleBindings (ev # tr) = deletedRoleBindings tr"

text \<open>The options of the list calls of a trace.\<close>

fun listOptions :: "event list \<Rightarrow> ListOption list list" where
  "listOptions [] = []"
| "listOptions (CacheListRoles opts err items # tr) = opts # listOptions tr"
| "listOptions (CacheListRoleBindings opts err items # tr) = opts # listOptions tr"
| "listOptions (ev # tr) = listOptions tr"

text \<open>
  An object is orphaned when it carries the hash label and the label's value is not the hash
  of a component route in the given set.
\<close>

definition orphaned :: "string set \<Rightarrow> 'a ObjectMeta_scheme \<Rightarrow> bool" where
  "orphaned existingHashes item =
     (case Labels item componentRouteHashLabelKey of
        None \<Rightarrow> False
      | Some expectedHash \<Rightarrow> expectedHash \<notin> existingHashes)"

text \<open>The errors with which the client answered the delete calls of a trace.\<close>

fun deleteFailures :: "event list \<Rightarrow> apiError list" where
  "deleteFailures [] = []"
| "deleteFailures (ClientDeleteRole role (Some err) # tr) = err # deleteFailures tr"
| "deleteFailures (ClientDeleteRoleBinding roleBinding (Some err) # tr) = err # deleteFailures tr"
| "deleteFailures (ev # tr) = deleteFailures tr"

text \<open>
  A trace is correlated when every role binding it writes refers to the role of the last
  successful write of a role before it: the name the server gave the role on create, or the
  name of the role that was updated. A role binding that is created also has that name as
  its own.
\<close>

fun correlated :: "string option \<Rightarrow> event list \<Rightarrow> bool" where
  "correlated roleName [] = True"
| "correlated roleName (ClientCreateRole role (Inr created) # tr) =
     correlated (Some (Name created)) tr"
| "correlated roleName (ClientCreateRole role (Inl err) # tr) = correlated None tr"
| "correlated roleName (ClientUpdateRole role None # tr) = correlated (Some (Name role)) tr"
| "correlated roleName (ClientUpdateRole role (Some err) # tr) = correlated None tr"
| "correlated roleName (ClientCreateRoleBinding roleBinding res # tr) =
     (roleName = Some (Name roleBinding) \<and> roleName = Some (ref_Name (RoleRef roleBinding))
      \<and> ref_Kind (RoleRef roleBinding) = ''Role'' \<and> correlated roleName tr)"
| "correlated roleName (ClientUpdateRoleBinding roleBinding res # tr) =
     (roleName = Some (ref_Name (RoleRef roleBinding))
      \<and> ref_Kind (RoleRef roleBinding) = ''Role'' \<and> correlated roleName tr)"
| "correlated roleName (ev # tr) = correlated roleName tr"

section \<open>A collaborator with fixed answers\<close>

text \<open>
  A reconciler to run the controller on: its cache answers every \<^verbatim>\<open>Get\<close> and every
  \<^verbatim>\<open>List\<close> with the answers given here, its client accepts every create (the generated
  name is the prefix followed by \<^verbatim>\<open>x7k2p\<close>) and every update, and answers every delete
  with \<open>deleted\<close>. Its hash is the identity.
\<close>

definition fixedReconciler ::
  "(apiError + Ingress) \<Rightarrow> (apiError option \<times> Role list)
     \<Rightarrow> (apiError option \<times> RoleBinding list) \<Rightarrow> apiError option \<Rightarrow> unit reconciler" where
  "fixedReconciler ingress roles roleBindings deleted =
     \<lparr>config_SecretNamespace = ''openshift-config'',
      util_Hash = id,
      OpenShiftConfigNamespace = ''openshift-config'',
      cache_Get = (\<lambda>key w. (ingress, w)),
      cache_ListRoles = (\<lambda>opts w. (roles, w)),
      cache_ListRoleBindings = (\<lambda>opts w. (roleBindings, w)),
      client_CreateRole =
        (\<lambda>role w. (Inr (role\<lparr>Name := GenerateName role @ ''x7k2p''\<rparr>), w)),
      client_CreateRoleBinding = (\<lambda>roleBinding w. (None, w)),
      client_UpdateRole = (\<lambda>role w. (None, w)),
      client_UpdateRoleBinding = (\<lambda>roleBinding w. (None, w)),
      client_DeleteRole = (\<lambda>role w. (deleted, w)),
      client_DeleteRoleBinding = (\<lambda>roleBinding w. (deleted, w))\<rparr>"

definition initial :: "unit state" where
  "initial = \<lparr>world = (), trace = []\<rparr>"

section \<open>Example objects\<close>

text \<open>A spec entry and a status entry as the end-to-end test writes them.\<close>

definition route :: "string \<Rightarrow> string \<Rightarrow> string \<Rightarrow> ComponentRouteSpec" where
  "route namespace name secret =
     \<lparr>spec_Namespace = namespace, spec_Name = name, spec_Hostname = ''www.testing.com'',
      spec_ServingCertKeyPairSecret = \<lparr>secret_Name = secret\<rparr>\<rparr>"

definition routeStatus :: "string \<Rightarrow> string \<Rightarrow> string list \<Rightarrow> ComponentRouteStatus" where
  "routeStatus namespace name users =
     \<lparr>status_Namespace = namespace, status_Name = name, status_DefaultHostname = [],
      status_ConsumingUsers = users, status_CurrentHostnames = []\<rparr>"

text \<open>A role and a role binding as they stand in the cluster, and a component route.\<close>

definition exampleRole :: "string \<Rightarrow> string \<Rightarrow> string \<Rightarrow> Role" where
  "exampleRole name hash secret =
     \<lparr>Name = name, GenerateName = [], Namespace = ''openshift-config'',
      Labels = [componentRouteHashLabelKey \<mapsto> hash],
      Rules =
        [\<lparr>Verbs = [''get'', ''list'', ''watch''], APIGroups = [[]],
          Resources = [''secrets''], ResourceNames = [secret]\<rparr>]\<rparr>"

definition exampleRoleBinding :: "string \<Rightarrow> string \<Rightarrow> string \<Rightarrow> string list \<Rightarrow> RoleBinding" where
  "exampleRoleBinding name hash roleName users =
     \<lparr>Name = name, GenerateName = [], Namespace = ''openshift-config'',
      Labels = [componentRouteHashLabelKey \<mapsto> hash],
      Subjects =
        map (\<lambda>user. \<lparr>subject_Kind = ServiceAccountKind, subject_Name = user,
                      subject_APIGroup = []\<rparr>) users,
      RoleRef =
        \<lparr>ref_Kind = ''Role'', ref_Name = roleName,
         ref_APIGroup = ''rbac.authorization.k8s.io''\<rparr>\<rparr>"

definition exampleRoute :: "string \<Rightarrow> string \<Rightarrow> string list \<Rightarrow> aggregatedComponentRoute" where
  "exampleRoute name secret users =
     \<lparr>cr_Name = name, cr_Hash = ''default/'' @ name, cr_ServingCertificateName = secret,
      cr_ConsumingUsers = users\<rparr>"

definition fooRoute :: aggregatedComponentRoute where
  "fooRoute = exampleRoute ''foo'' ''foo'' [''a'', ''b'']"

definition fooRole :: Role where
  "fooRole = exampleRole ''foo-x7k2p'' ''default/foo'' ''foo''"

definition barRole :: Role where
  "barRole = exampleRole ''bar-x7k2p'' ''default/bar'' ''bar''"

definition fooRoleBinding :: RoleBinding where
  "fooRoleBinding = exampleRoleBinding ''foo-x7k2p'' ''default/foo'' ''foo-x7k2p'' [''a'', ''b'']"

definition barRoleBinding :: RoleBinding where
  "barRoleBinding = exampleRoleBinding ''bar-x7k2p'' ''default/bar'' ''bar-x7k2p'' [''b'']"

definition fooIngress :: Ingress where
  "fooIngress =
     \<lparr>Spec_ComponentRoutes = [route ''default'' ''foo'' ''foo''],
      Status_ComponentRoutes = [routeStatus ''default'' ''foo'' [''a'', ''b'']]\<rparr>"

definition clusterIngress :: NamespacedName where
  "clusterIngress = \<lparr>nn_Namespace = [], nn_Name = ''cluster''\<rparr>"

section \<open>Properties of the intersection\<close>

lemma find_append_case:
  "find P (xs @ ys) = (case find P xs of None \<Rightarrow> find P ys | Some x \<Rightarrow> Some x)"
  by (induction xs) simp_all

lemma statusesByHash_lookup:
  "statusesByHash Hash S m0 k =
     (case find (\<lambda>st. statusKey Hash st = k) (rev S) of Some st \<Rightarrow> Some st | None \<Rightarrow> m0 k)"
  by (induction S arbitrary: m0)
     (simp_all add: find_append_case statusKey_def split: option.split)

lemma appendIntersecting_map_filter:
  "appendIntersecting Hash m D acc0 =
     acc0 @ List.map_filter (\<lambda>d. map_option (newAggregatedComponentRoute Hash d)
                                   (m (specKey Hash d))) D"
proof (induction D arbitrary: acc0)
  case Nil
  show ?case by (simp add: List.map_filter_simps)
next
  case (Cons d D)
  show ?case
    by (cases "m (specKey Hash d)")
       (simp_all add: Cons.IH List.map_filter_simps specKey_def [symmetric])
qed

lemma intersecting_characterisation:
  "intersectingComponentRoutes Hash D S =
     List.map_filter
       (\<lambda>d. map_option (newAggregatedComponentRoute Hash d)
               (find (\<lambda>st. statusKey Hash st = specKey Hash d) (rev S))) D"
proof -
  have m: "statusesByHash Hash S Map.empty k = find (\<lambda>st. statusKey Hash st = k) (rev S)" for k
    by (simp add: statusesByHash_lookup split: option.split)
  show ?thesis
    by (simp add: intersectingComponentRoutes_def appendIntersecting_map_filter m)
qed

lemma find_rev_None_iff: "find P (rev S) = None \<longleftrightarrow> \<not> (\<exists>st\<in>set S. P st)"
  by (auto simp add: find_None_iff)

text \<open>
  C1, as the code has it. The routes returned are those of the spec entries, in the order of
  the spec list, whose correlation key (the hash of \<^verbatim>\<open>namespace/name\<close>) is the key of some
  status entry; each route has the name and the serving secret of its spec entry, that key
  as its hash, and the consuming users of the last status entry with that key. A spec entry
  whose key no status entry has, and a status entry whose key no spec entry has, give no
  route.
\<close>

theorem intersecting_by_correlation_key:
  "intersectingComponentRoutes Hash D S =
     List.map_filter
       (\<lambda>d. map_option
               (\<lambda>st. \<lparr>cr_Name = spec_Name d,
                       cr_Hash = specKey Hash d,
                       cr_ServingCertificateName = secret_Name (spec_ServingCertKeyPairSecret d),
                       cr_ConsumingUsers = status_ConsumingUsers st\<rparr>)
               (find (\<lambda>st. statusKey Hash st = specKey Hash d) (rev S)))
       D"
  by (simp add: intersecting_characterisation newAggregatedComponentRoute_def [abs_def]
        specKey_def)

text \<open>
  The entries are matched on the hash of \<^verbatim>\<open>namespace/name\<close>, not on the pair. The spec
  entry \<^verbatim>\<open>(a/b, c)\<close> and the status entry \<^verbatim>\<open>(a, b/c)\<close> are different pairs with the same
  string \<^verbatim>\<open>a/b/c\<close>, hence the same hash whatever the hash function is, and a route is
  returned for them.
\<close>

lemma slash_collision_for_every_hash:
  "intersectingComponentRoutes Hash [route ''a/b'' ''c'' ''secret'']
       [routeStatus ''a'' ''b/c'' [''user'']] =
     [\<lparr>cr_Name = ''c'', cr_Hash = Hash ''a/b/c'', cr_ServingCertificateName = ''secret'',
       cr_ConsumingUsers = [''user'']\<rparr>]"
  by (simp add: intersectingComponentRoutes_def route_def routeStatus_def namespacedName_def
        newAggregatedComponentRoute_def)

text \<open>
  C1 as it is stated fails at these two entries (here with the identity as the hash): their
  (namespace, name) pairs differ, and a route is returned.
\<close>

theorem intersecting_identity_counterexample:
  "intersectingComponentRoutes id [route ''a/b'' ''c'' ''secret'']
       [routeStatus ''a'' ''b/c'' [''user'']] =
     [\<lparr>cr_Name = ''c'', cr_Hash = ''a/b/c'', cr_ServingCertificateName = ''secret'',
       cr_ConsumingUsers = [''user'']\<rparr>]
   \<and> (spec_Namespace (route ''a/b'' ''c'' ''secret''), spec_Name (route ''a/b'' ''c'' ''secret''))
       \<noteq> (status_Namespace (routeStatus ''a'' ''b/c'' [''user'']),
           status_Name (routeStatus ''a'' ''b/c'' [''user'']))"
  by (simp add: intersectingComponentRoutes_def route_def routeStatus_def namespacedName_def
        newAggregatedComponentRoute_def)

text \<open>
  C7, as the code has it. Only the status list goes through the map: of several status
  entries with one key the last one wins, and every route carries its consuming users. The
  spec list is walked entry by entry: each spec entry whose key is in the map gives a route
  of its own with its own serving secret, so a key that \<open>n\<close> spec entries share gives \<open>n\<close>
  routes (and none when no status entry has the key).
\<close>

theorem intersecting_duplicates:
  "map cr_ConsumingUsers (intersectingComponentRoutes Hash D S) =
     List.map_filter
       (\<lambda>d. map_option status_ConsumingUsers
               (find (\<lambda>st. statusKey Hash st = specKey Hash d) (rev S))) D
   \<and> map cr_ServingCertificateName (intersectingComponentRoutes Hash D S) =
       map (\<lambda>d. secret_Name (spec_ServingCertKeyPairSecret d))
         (filter (\<lambda>d. \<exists>st\<in>set S. statusKey Hash st = specKey Hash d) D)
   \<and> length (filter (\<lambda>t. cr_Hash t = k) (intersectingComponentRoutes Hash D S)) =
       (if \<exists>st\<in>set S. statusKey Hash st = k
        then length (filter (\<lambda>d. specKey Hash d = k) D) else 0)"
proof (intro conjI)
  show "map cr_ConsumingUsers (intersectingComponentRoutes Hash D S) =
     List.map_filter
       (\<lambda>d. map_option status_ConsumingUsers
               (find (\<lambda>st. statusKey Hash st = specKey Hash d) (rev S))) D"
    unfolding intersecting_characterisation
    by (induction D)
       (simp_all add: List.map_filter_simps newAggregatedComponentRoute_def split: option.split)
  show "map cr_ServingCertificateName (intersectingComponentRoutes Hash D S) =
       map (\<lambda>d. secret_Name (spec_ServingCertKeyPairSecret d))
         (filter (\<lambda>d. \<exists>st\<in>set S. statusKey Hash st = specKey Hash d) D)"
    unfolding intersecting_characterisation
  proof (induction D)
    case Nil
    show ?case by (simp add: List.map_filter_simps)
  next
    case (Cons d D)
    show ?case
    proof (cases "find (\<lambda>st. statusKey Hash st = specKey Hash d) (rev S)")
      case None
      then have "\<not> (\<exists>st\<in>set S. statusKey Hash st = specKey Hash d)"
        by (simp add: find_None_iff)
      with None Cons.IH show ?thesis by (simp add: List.map_filter_simps)
    next
      case (Some st)
      then have "\<exists>st\<in>set S. statusKey Hash st = specKey Hash d"
        using find_rev_None_iff [of "\<lambda>st. statusKey Hash st = specKey Hash d" S] by simp
      with Some Cons.IH show ?thesis
        by (simp add: List.map_filter_simps newAggregatedComponentRoute_def)
    qed
  qed
  show "length (filter (\<lambda>t. cr_Hash t = k) (intersectingComponentRoutes Hash D S)) =
       (if \<exists>st\<in>set S. statusKey Hash st = k
        then length (filter (\<lambda>d. specKey Hash d = k) D) else 0)"
    unfolding intersecting_characterisation
  proof (induction D)
    case Nil
    show ?case by (simp add: List.map_filter_simps)
  next
    case (Cons d D)
    show ?case
    proof (cases "find (\<lambda>st. statusKey Hash st = specKey Hash d) (rev S)")
      case None
      then have "\<not> (\<exists>st\<in>set S. statusKey Hash st = specKey Hash d)"
        by (simp add: find_None_iff)
      with None Cons.IH show ?thesis by (auto simp add: List.map_filter_simps)
    next
      case (Some st)
      then have "\<exists>st\<in>set S. statusKey Hash st = specKey Hash d"
        using find_rev_None_iff [of "\<lambda>st. statusKey Hash st = specKey Hash d" S] by simp
      with Some Cons.IH show ?thesis
        by (auto simp add: List.map_filter_simps newAggregatedComponentRoute_def specKey_def)
    qed
  qed
qed

text \<open>
  C7 as it is stated fails for duplicates in the spec list: two spec entries
  \<^verbatim>\<open>default/foo\<close> and one status entry \<^verbatim>\<open>default/foo\<close> give two routes with the same hash,
  the first with the first entry's secret.
\<close>

theorem intersecting_duplicates_counterexample:
  "intersectingComponentRoutes id
     [route ''default'' ''foo'' ''first'', route ''default'' ''foo'' ''second'']
     [routeStatus ''default'' ''foo'' [''a'']] =
     [\<lparr>cr_Name = ''foo'', cr_Hash = ''default/foo'', cr_ServingCertificateName = ''first'',
       cr_ConsumingUsers = [''a'']\<rparr>,
      \<lparr>cr_Name = ''foo'', cr_Hash = ''default/foo'', cr_ServingCertificateName = ''second'',
       cr_ConsumingUsers = [''a'']\<rparr>]"
  by (simp add: intersectingComponentRoutes_def route_def routeStatus_def namespacedName_def
        newAggregatedComponentRoute_def)

section \<open>Traces of the calls\<close>

lemma since_append: "trace s' = trace s @ tr \<Longrightarrow> since s s' = tr"
  by (simp add: since_def)

lemma listedRoles_append: "listedRoles (a @ b) = listedRoles a @ listedRoles b"
  by (induction a rule: listedRoles.induct) simp_all

lemma listedRoleBindings_append:
  "listedRoleBindings (a @ b) = listedRoleBindings a @ listedRoleBindings b"
  by (induction a rule: listedRoleBindings.induct) simp_all

lemma createdRoles_append: "createdRoles (a @ b) = createdRoles a @ createdRoles b"
  by (induction a rule: createdRoles.induct) simp_all

lemma createdRoleBindings_append:
  "createdRoleBindings (a @ b) = createdRoleBindings a @ createdRoleBindings b"
  by (induction a rule: createdRoleBindings.induct) simp_all

lemma updatedRoles_append: "updatedRoles (a @ b) = updatedRoles a @ updatedRoles b"
  by (induction a rule: updatedRoles.induct) simp_all

lemma updatedRoleBindings_append:
  "updatedRoleBindings (a @ b) = updatedRoleBindings a @ updatedRoleBindings b"
  by (induction a rule: updatedRoleBindings.induct) simp_all

lemma deletedRoles_append: "deletedRoles (a @ b) = deletedRoles a @ deletedRoles b"
  by (induction a rule: deletedRoles.induct) simp_all

lemma deletedRoleBindings_append:
  "deletedRoleBindings (a @ b) = deletedRoleBindings a @ deletedRoleBindings b"
  by (induction a rule: deletedRoleBindings.induct) simp_all

lemma deleteFailures_append: "deleteFailures (a @ b) = deleteFailures a @ deleteFailures b"
  by (induction a rule: deleteFailures.induct) simp_all

lemma listOptions_append: "listOptions (a @ b) = listOptions a @ listOptions b"
  by (induction a rule: listOptions.induct) simp_all

lemmas projections_append =
  listedRoles_append listedRoleBindings_append createdRoles_append createdRoleBindings_append
  updatedRoles_append updatedRoleBindings_append deletedRoles_append deletedRoleBindings_append
  deleteFailures_append listOptions_append

lemma deleted_of_roleDeletes:
  "deletedRoles (map (\<lambda>p. ClientDeleteRole (fst p) (snd p)) ps) = map fst ps"
  "deletedRoleBindings (map (\<lambda>p. ClientDeleteRole (fst p) (snd p)) ps) = []"
  by (induction ps) auto

lemma deleted_of_roleBindingDeletes:
  "deletedRoleBindings (map (\<lambda>p. ClientDeleteRoleBinding (fst p) (snd p)) qs) = map fst qs"
  "deletedRoles (map (\<lambda>p. ClientDeleteRoleBinding (fst p) (snd p)) qs) = []"
  by (induction qs) auto

lemma ListRoles_run:
  "ListRoles r opts s = ((err, items), s1) \<Longrightarrow>
     trace s1 = trace s @ [CacheListRoles opts err items]
     \<and> fst (cache_ListRoles r opts (world s)) = (err, items)"
  by (auto simp: ListRoles_def split: prod.splits)

lemma ListRoleBindings_run:
  "ListRoleBindings r opts s = ((err, items), s1) \<Longrightarrow>
     trace s1 = trace s @ [CacheListRoleBindings opts err items]
     \<and> fst (cache_ListRoleBindings r opts (world s)) = (err, items)"
  by (auto simp: ListRoleBindings_def split: prod.splits)

lemma CreateRole_trace:
  "CreateRole r x s = (res, s') \<Longrightarrow> trace s' = trace s @ [ClientCreateRole x res]"
  by (auto simp: CreateRole_def split: prod.splits)

lemma CreateRoleBinding_trace:
  "CreateRoleBinding r x s = (res, s') \<Longrightarrow> trace s' = trace s @ [ClientCreateRoleBinding x res]"
  by (auto simp: CreateRoleBinding_def split: prod.splits)

lemma UpdateRole_trace:
  "UpdateRole r x s = (res, s') \<Longrightarrow> trace s' = trace s @ [ClientUpdateRole x res]"
  by (auto simp: UpdateRole_def split: prod.splits)

lemma UpdateRoleBinding_trace:
  "UpdateRoleBinding r x s = (res, s') \<Longrightarrow> trace s' = trace s @ [ClientUpdateRoleBinding x res]"
  by (auto simp: UpdateRoleBinding_def split: prod.splits)

lemma collectHashes_set: "collectHashes crs A = A \<union> cr_Hash ` set crs"
  by (induction crs arbitrary: A) auto

lemma DeleteRole_trace:
  "DeleteRole r x s = (res, s') \<Longrightarrow> trace s' = trace s @ [ClientDeleteRole x res]"
  by (auto simp: DeleteRole_def split: prod.splits)

lemma roleDeletes_projections:
  "listedRoles (map (\<lambda>p. ClientDeleteRole (fst p) (snd p)) ps) = []"
  "listedRoleBindings (map (\<lambda>p. ClientDeleteRole (fst p) (snd p)) ps) = []"
  "createdRoles (map (\<lambda>p. ClientDeleteRole (fst p) (snd p)) ps) = []"
  "createdRoleBindings (map (\<lambda>p. ClientDeleteRole (fst p) (snd p)) ps) = []"
  "updatedRoles (map (\<lambda>p. ClientDeleteRole (fst p) (snd p)) ps) = []"
  "updatedRoleBindings (map (\<lambda>p. ClientDeleteRole (fst p) (snd p)) ps) = []"
  "listOptions (map (\<lambda>p. ClientDeleteRole (fst p) (snd p)) ps) = []"
  by (induction ps) auto

lemma roleDeletes_failures:
  "set (deleteFailures (map (\<lambda>p. ClientDeleteRole (fst p) (snd p)) ps)) =
     {e. \<exists>x. (x, Some e) \<in> set ps}"
proof (induction ps)
  case Nil
  show ?case by simp
next
  case (Cons p ps)
  obtain x res where p: "p = (x, res)" by (cases p)
  show ?case using Cons.IH by (cases res) (auto simp add: p)
qed

lemma last_failure_in_roleDeletes:
  "ps \<noteq> [] \<Longrightarrow> snd (last ps) = Some e \<Longrightarrow>
     e \<in> set (deleteFailures (map (\<lambda>p. ClientDeleteRole (fst p) (snd p)) ps))"
proof -
  assume "ps \<noteq> []" and e: "snd (last ps) = Some e"
  then have "(fst (last ps), Some e) \<in> set ps"
    by (metis last_in_set prod.collapse)
  then show ?thesis by (auto simp add: roleDeletes_failures)
qed

lemma correlated_roleDeletes:
  "correlated n (map (\<lambda>p. ClientDeleteRole (fst p) (snd p)) ps @ tr) = correlated n tr"
  by (induction ps) auto

lemma cleanupRoles_trace:
  fixes r :: "'w reconciler"
  shows "\<exists>ps. trace (snd (cleanupRoles r H items s)) =
             trace s @ map (\<lambda>p. ClientDeleteRole (fst p) (snd p)) ps
      \<and> prefix (map fst ps) (filter (orphaned H) items)
      \<and> (fst (cleanupRoles r H items s) = None \<longrightarrow>
           map fst ps = filter (orphaned H) items
           \<and> (\<forall>x\<in>set items. Labels x componentRouteHashLabelKey \<noteq> None)
           \<and> (\<forall>p\<in>set ps. \<forall>e. snd p = Some e \<longrightarrow> IsNotFound e))
      \<and> (\<forall>err. fst (cleanupRoles r H items s) = Some err \<longrightarrow>
           (err = Errorf ''Unable to find expected componentRoute hash label''
            \<and> (\<exists>x\<in>set items. Labels x componentRouteHashLabelKey = None)
            \<and> (\<forall>p\<in>set ps. \<forall>e. snd p = Some e \<longrightarrow> IsNotFound e))
           \<or> (\<exists>e. err = ClientError e \<and> \<not> IsNotFound e \<and> ps \<noteq> []
                  \<and> snd (last ps) = Some e))"
proof -
  define P where "P = (\<lambda>items (s :: 'w state) ps.
      trace (snd (cleanupRoles r H items s)) =
             trace s @ map (\<lambda>p. ClientDeleteRole (fst p) (snd p)) ps
      \<and> prefix (map fst ps) (filter (orphaned H) items)
      \<and> (fst (cleanupRoles r H items s) = None \<longrightarrow>
           map fst ps = filter (orphaned H) items
           \<and> (\<forall>x\<in>set items. Labels x componentRouteHashLabelKey \<noteq> None)
           \<and> (\<forall>p\<in>set ps. \<forall>e. snd p = Some e \<longrightarrow> IsNotFound e))
      \<and> (\<forall>err. fst (cleanupRoles r H items s) = Some err \<longrightarrow>
           (err = Errorf ''Unable to find expected componentRoute hash label''
            \<and> (\<exists>x\<in>set items. Labels x componentRouteHashLabelKey = None)
            \<and> (\<forall>p\<in>set ps. \<forall>e. snd p = Some e \<longrightarrow> IsNotFound e))
           \<or> (\<exists>e. err = ClientError e \<and> \<not> IsNotFound e \<and> ps \<noteq> []
                  \<and> snd (last ps) = Some e)))"
  have "\<exists>ps. P items s ps"
  proof (induction items arbitrary: s)
    case Nil
    show ?case by (intro exI [of _ "[]"]) (simp add: P_def)
  next
    case (Cons item items)
    show ?case
    proof (cases "Labels item componentRouteHashLabelKey")
      case None
      then show ?thesis by (intro exI [of _ "[]"]) (simp add: P_def orphaned_def)
    next
      case (Some h)
      show ?thesis
      proof (cases "h \<in> H")
        case True
        obtain ps where "P items s ps" using Cons.IH by blast
        with Some True show ?thesis
          by (intro exI [of _ ps]) (simp add: P_def orphaned_def)
      next
        case False
        obtain res s1 where D: "DeleteRole r item s = (res, s1)"
          by (cases "DeleteRole r item s")
        note T = DeleteRole_trace [OF D]
        show ?thesis
        proof (cases "\<exists>err. res = Some err \<and> \<not> IsNotFound err")
          case True
          then obtain err where "res = Some err" "\<not> IsNotFound err" by blast
          with Some False D T show ?thesis
            by (intro exI [of _ "[(item, res)]"]) (simp add: P_def orphaned_def)
        next
          case soft: False
          then have step: "cleanupRoles r H (item # items) s = cleanupRoles r H items s1"
            using Some False D by (cases res) auto
          obtain ps where "P items s1 ps" using Cons.IH by blast
          with Some False T soft show ?thesis
            unfolding P_def step
            by (intro exI [of _ "(item, res) # ps"]) (auto simp add: orphaned_def)
        qed
      qed
    qed
  qed
  then show ?thesis by (simp add: P_def)
qed

lemma deleteDuplicateRoles_trace:
  fixes r :: "'w reconciler"
  shows "\<exists>ps. trace (snd (deleteDuplicateRoles r i items s)) =
             trace s @ map (\<lambda>p. ClientDeleteRole (fst p) (snd p)) ps
      \<and> prefix (map fst ps) (if i = 0 then tl items else items)
      \<and> (fst (deleteDuplicateRoles r i items s) = None \<longrightarrow>
            map fst ps = (if i = 0 then tl items else items)
            \<and> (\<forall>p\<in>set ps. \<forall>e. snd p = Some e \<longrightarrow> IsNotFound e))
      \<and> (\<forall>e. fst (deleteDuplicateRoles r i items s) = Some e \<longrightarrow>
            \<not> IsNotFound e \<and> ps \<noteq> [] \<and> snd (last ps) = Some e)"
proof -
  define P where "P = (\<lambda>i items (s :: 'w state) ps.
      trace (snd (deleteDuplicateRoles r i items s)) =
             trace s @ map (\<lambda>p. ClientDeleteRole (fst p) (snd p)) ps
      \<and> prefix (map fst ps) (if i = 0 then tl items else items)
      \<and> (fst (deleteDuplicateRoles r i items s) = None \<longrightarrow>
            map fst ps = (if i = 0 then tl items else items)
            \<and> (\<forall>p\<in>set ps. \<forall>e. snd p = Some e \<longrightarrow> IsNotFound e))
      \<and> (\<forall>e. fst (deleteDuplicateRoles r i items s) = Some e \<longrightarrow>
            \<not> IsNotFound e \<and> ps \<noteq> [] \<and> snd (last ps) = Some e))"
  have "\<exists>ps. P i items s ps"
  proof (induction items arbitrary: i s)
    case Nil
    show ?case by (intro exI [of _ "[]"]) (simp add: P_def)
  next
    case (Cons curRole rest)
    show ?case
    proof (cases "i = 0")
      case True
      obtain ps where "P (Suc i) rest s ps" using Cons.IH by blast
      with True show ?thesis
        by (intro exI [of _ ps]) (auto simp add: P_def)
    next
      case False
      obtain res s1 where D: "DeleteRole r curRole s = (res, s1)"
        by (cases "DeleteRole r curRole s")
      note T = DeleteRole_trace [OF D]
      show ?thesis
      proof (cases "\<exists>err. res = Some err \<and> \<not> IsNotFound err")
        case True
        then obtain err where "res = Some err" "\<not> IsNotFound err" by blast
        with False D T show ?thesis
          by (intro exI [of _ "[(curRole, res)]"]) (auto simp add: P_def)
      next
        case soft: False
        then have step: "deleteDuplicateRoles r i (curRole # rest) s =
                         deleteDuplicateRoles r (Suc i) rest s1"
          using False D by (cases res) auto
        obtain ps where "P (Suc i) rest s1 ps" using Cons.IH by blast
        with False T soft show ?thesis
          unfolding P_def step
          by (intro exI [of _ "(curRole, res) # ps"]) auto
      qed
    qed
  qed
  then show ?thesis by (simp add: P_def)
qed

lemma DeleteRoleBinding_trace:
  "DeleteRoleBinding r x s = (res, s') \<Longrightarrow> trace s' = trace s @ [ClientDeleteRoleBinding x res]"
  by (auto simp: DeleteRoleBinding_def split: prod.splits)

lemma roleBindingDeletes_projections:
  "listedRoles (map (\<lambda>p. ClientDeleteRoleBinding (fst p) (snd p)) ps) = []"
  "listedRoleBindings (map (\<lambda>p. ClientDeleteRoleBinding (fst p) (snd p)) ps) = []"
  "createdRoles (map (\<lambda>p. ClientDeleteRoleBinding (fst p) (snd p)) ps) = []"
  "createdRoleBindings (map (\<lambda>p. ClientDeleteRoleBinding (fst p) (snd p)) ps) = []"
  "updatedRoles (map (\<lambda>p. ClientDeleteRoleBinding (fst p) (snd p)) ps) = []"
  "updatedRoleBindings (map (\<lambda>p. ClientDeleteRoleBinding (fst p) (snd p)) ps) = []"
  "listOptions (map (\<lambda>p. ClientDeleteRoleBinding (fst p) (snd p)) ps) = []"
  by (induction ps) auto

lemma roleBindingDeletes_failures:
  "set (deleteFailures (map (\<lambda>p. ClientDeleteRoleBinding (fst p) (snd p)) ps)) =
     {e. \<exists>x. (x, Some e) \<in> set ps}"
proof (induction ps)
  case Nil
  show ?case by simp
next
  case (Cons p ps)
  obtain x res where p: "p = (x, res)" by (cases p)
  show ?case using Cons.IH by (cases res) (auto simp add: p)
qed

lemma last_failure_in_roleBindingDeletes:
  "ps \<noteq> [] \<Longrightarrow> snd (last ps) = Some e \<Longrightarrow>
     e \<in> set (deleteFailures (map (\<lambda>p. ClientDeleteRoleBinding (fst p) (snd p)) ps))"
proof -
  assume "ps \<noteq> []" and e: "snd (last ps) = Some e"
  then have "(fst (last ps), Some e) \<in> set ps"
    by (metis last_in_set prod.collapse)
  then show ?thesis by (auto simp add: roleBindingDeletes_failures)
qed

lemma correlated_roleBindingDeletes:
  "correlated n (map (\<lambda>p. ClientDeleteRoleBinding (fst p) (snd p)) ps @ tr) = correlated n tr"
  by (induction ps) auto

lemma cleanupRoleBindings_trace:
  fixes r :: "'w reconciler"
  shows "\<exists>ps. trace (snd (cleanupRoleBindings r H items s)) =
             trace s @ map (\<lambda>p. ClientDeleteRoleBinding (fst p) (snd p)) ps
      \<and> prefix (map fst ps) (filter (orphaned H) items)
      \<and> (fst (cleanupRoleBindings r H items s) = None \<longrightarrow>
           map fst ps = filter (orphaned H) items
           \<and> (\<forall>x\<in>set items. Labels x componentRouteHashLabelKey \<noteq> None)
           \<and> (\<forall>p\<in>set ps. \<forall>e. snd p = Some e \<longrightarrow> IsNotFound e))
      \<and> (\<forall>err. fst (cleanupRoleBindings r H items s) = Some err \<longrightarrow>
           (err = Errorf ''Unable to find expected componentRoute hash label''
            \<and> (\<exists>x\<in>set items. Labels x componentRouteHashLabelKey = None)
            \<and> (\<forall>p\<in>set ps. \<forall>e. snd p = Some e \<longrightarrow> IsNotFound e))
           \<or> (\<exists>e. err = ClientError e \<and> \<not> IsNotFound e \<and> ps \<noteq> []
                  \<and> snd (last ps) = Some e))"
proof -
  define P where "P = (\<lambda>items (s :: 'w state) ps.
      trace (snd (cleanupRoleBindings r H items s)) =
             trace s @ map (\<lambda>p. ClientDeleteRoleBinding (fst p) (snd p)) ps
      \<and> prefix (map fst ps) (filter (orphaned H) items)
      \<and> (fst (cleanupRoleBindings r H items s) = None \<longrightarrow>
           map fst ps = filter (orphaned H) items
           \<and> (\<forall>x\<in>set items. Labels x componentRouteHashLabelKey \<noteq> None)
           \<and> (\<forall>p\<in>set ps. \<forall>e. snd p = Some e \<longrightarrow> IsNotFound e))
      \<and> (\<forall>err. fst (cleanupRoleBindings r H items s) = Some err \<longrightarrow>
           (err = Errorf ''Unable to find expected componentRoute hash label''
            \<and> (\<exists>x\<in>set items. Labels x componentRouteHashLabelKey = None)
            \<and> (\<forall>p\<in>set ps. \<forall>e. snd p = Some e \<longrightarrow> IsNotFound e))
           \<or> (\<exists>e. err = ClientError e \<and> \<not> IsNotFound e \<and> ps \<noteq> []
                  \<and> snd (last ps) = Some e)))"
  have "\<exists>ps. P items s ps"
  proof (induction items arbitrary: s)
    case Nil
    show ?case by (intro exI [of _ "[]"]) (simp add: P_def)
  next
    case (Cons item items)
    show ?case
    proof (cases "Labels item componentRouteHashLabelKey")
      case None
      then show ?thesis by (intro exI [of _ "[]"]) (simp add: P_def orphaned_def)
    next
      case (Some h)
      show ?thesis
      proof (cases "h \<in> H")
        case True
        obtain ps where "P items s ps" using Cons.IH by blast
        with Some True show ?thesis
          by (intro exI [of _ ps]) (simp add: P_def orphaned_def)
      next
        case False
        obtain res s1 where D: "DeleteRoleBinding r item s = (res, s1)"
          by (cases "DeleteRoleBinding r item s")
        note T = DeleteRoleBinding_trace [OF D]
        show ?thesis
        proof (cases "\<exists>err. res = Some err \<and> \<not> IsNotFound err")
          case True
          then obtain err where "res = Some err" "\<not> IsNotFound err" by blast
          with Some False D T show ?thesis
            by (intro exI [of _ "[(item, res)]"]) (simp add: P_def orphaned_def)
        next
          case soft: False
          then have step: "cleanupRoleBindings r H (item # items) s = cleanupRoleBindings r H items s1"
            using Some False D by (cases res) auto
          obtain ps where "P items s1 ps" using Cons.IH by blast
          with Some False T soft show ?thesis
            unfolding P_def step
            by (intro exI [of _ "(item, res) # ps"]) (auto simp add: orphaned_def)
        qed
      qed
    qed
  qed
  then show ?thesis by (simp add: P_def)
qed

lemma deleteDuplicateRoleBindings_trace:
  fixes r :: "'w reconciler"
  shows "\<exists>ps. trace (snd (deleteDuplicateRoleBindings r i items s)) =
             trace s @ map (\<lambda>p. ClientDeleteRoleBinding (fst p) (snd p)) ps
      \<and> prefix (map fst ps) (if i = 0 then tl items else items)
      \<and> (fst (deleteDuplicateRoleBindings r i items s) = None \<longrightarrow>
            map fst ps = (if i = 0 then tl items else items)
            \<and> (\<forall>p\<in>set ps. \<forall>e. snd p = Some e \<longrightarrow> IsNotFound e))
      \<and> (\<forall>e. fst (deleteDuplicateRoleBindings r i items s) = Some e \<longrightarrow>
            \<not> IsNotFound e \<and> ps \<noteq> [] \<and> snd (last ps) = Some e)"
proof -
  define P where "P = (\<lambda>i items (s :: 'w state) ps.
      trace (snd (deleteDuplicateRoleBindings r i items s)) =
             trace s @ map (\<lambda>p. ClientDeleteRoleBinding (fst p) (snd p)) ps
      \<and> prefix (map fst ps) (if i = 0 then tl items else items)
      \<and> (fst (deleteDuplicateRoleBindings r i items s) = None \<longrightarrow>
            map fst ps = (if i = 0 then tl items else items)
            \<and> (\<forall>p\<in>set ps. \<forall>e. snd p = Some e \<longrightarrow> IsNotFound e))
      \<and> (\<forall>e. fst (deleteDuplicateRoleBindings r i items s) = Some e \<longrightarrow>
            \<not> IsNotFound e \<and> ps \<noteq> [] \<and> snd (last ps) = Some e))"
  have "\<exists>ps. P i items s ps"
  proof (induction items arbitrary: i s)
    case Nil
    show ?case by (intro exI [of _ "[]"]) (simp add: P_def)
  next
    case (Cons curRole rest)
    show ?case
    proof (cases "i = 0")
      case True
      obtain ps where "P (Suc i) rest s ps" using Cons.IH by blast
      with True show ?thesis
        by (intro exI [of _ ps]) (auto simp add: P_def)
    next
      case False
      obtain res s1 where D: "DeleteRoleBinding r curRole s = (res, s1)"
        by (cases "DeleteRoleBinding r curRole s")
      note T = DeleteRoleBinding_trace [OF D]
      show ?thesis
      proof (cases "\<exists>err. res = Some err \<and> \<not> IsNotFound err")
        case True
        then obtain err where "res = Some err" "\<not> IsNotFound err" by blast
        with False D T show ?thesis
          by (intro exI [of _ "[(curRole, res)]"]) (auto simp add: P_def)
      next
        case soft: False
        then have step: "deleteDuplicateRoleBindings r i (curRole # rest) s =
                         deleteDuplicateRoleBindings r (Suc i) rest s1"
          using False D by (cases res) auto
        obtain ps where "P (Suc i) rest s1 ps" using Cons.IH by blast
        with False T soft show ?thesis
          unfolding P_def step
          by (intro exI [of _ "(curRole, res) # ps"]) auto
      qed
    qed
  qed
  then show ?thesis by (simp add: P_def)
qed

section \<open>The runs of the two ensure functions\<close>

text \<open>
  A run of \<^verbatim>\<open>ensureServiceCertKeyPairSecretRole\<close> is one of four: the list fails; the list
  is empty and a role is created; a delete of a duplicate fails; the duplicates are deleted
  and the first role is updated.
\<close>

lemma ensureRole_shape:
  fixes r :: "'w reconciler"
  assumes run: "ensureServiceCertKeyPairSecretRole r cr s = (res, s')"
  obtains
    (ListFailed) e items where
      "fst (cache_ListRoles r (componentRouteResources r cr) (world s)) = (Some e, items)"
      "trace s' = trace s @ [CacheListRoles (componentRouteResources r cr) (Some e) items]"
      "res = Inl e"
  | (Created) resp where
      "fst (cache_ListRoles r (componentRouteResources r cr) (world s)) = (None, [])"
      "trace s' = trace s @ [CacheListRoles (componentRouteResources r cr) None [],
                             ClientCreateRole (desiredRole r cr) resp]"
      "res = (case resp of Inl e \<Rightarrow> Inl e | Inr created \<Rightarrow> Inr (Name created))"
  | (DeleteFailed) first rest ps e where
      "fst (cache_ListRoles r (componentRouteResources r cr) (world s)) = (None, first # rest)"
      "trace s' = trace s @ CacheListRoles (componentRouteResources r cr) None (first # rest)
                      # map (\<lambda>p. ClientDeleteRole (fst p) (snd p)) ps"
      "prefix (map fst ps) rest" "ps \<noteq> []" "snd (last ps) = Some e" "\<not> IsNotFound e"
      "res = Inl e"
  | (Updated) first rest ps resp where
      "fst (cache_ListRoles r (componentRouteResources r cr) (world s)) = (None, first # rest)"
      "trace s' = trace s @ CacheListRoles (componentRouteResources r cr) None (first # rest)
                      # map (\<lambda>p. ClientDeleteRole (fst p) (snd p)) ps
                      @ [ClientUpdateRole (first\<lparr>Rules := Rules (desiredRole r cr)\<rparr>) resp]"
      "map fst ps = rest" "\<forall>p\<in>set ps. \<forall>e. snd p = Some e \<longrightarrow> IsNotFound e"
      "res = (case resp of None \<Rightarrow> Inr (Name first) | Some e \<Rightarrow> Inl e)"
proof -
  let ?opts = "componentRouteResources r cr"
  obtain err items s1 where L: "ListRoles r ?opts s = ((err, items), s1)"
    by (cases "ListRoles r ?opts s") auto
  note L1 = ListRoles_run [OF L, THEN conjunct1] and L2 = ListRoles_run [OF L, THEN conjunct2]
  show thesis
  proof (cases err)
    case (Some e)
    with run L have "res = Inl e" "s' = s1"
      by (simp_all add: ensureServiceCertKeyPairSecretRole_def)
    with Some L1 L2 show thesis
      by (intro ListFailed [of e items]) simp_all
  next
    case None
    show thesis
    proof (cases items)
      case Nil
      obtain resp s2 where C: "CreateRole r (desiredRole r cr) s1 = (resp, s2)"
        by (cases "CreateRole r (desiredRole r cr) s1")
      from run L None Nil C
      have "res = (case resp of Inl e \<Rightarrow> Inl e | Inr created \<Rightarrow> Inr (Name created))" "s' = s2"
        by (auto simp add: ensureServiceCertKeyPairSecretRole_def split: sum.splits)
      with None Nil L1 L2 CreateRole_trace [OF C] show thesis
        by (intro Created [of resp]) simp_all
    next
      case (Cons first rest)
      obtain dres s2 where D: "deleteDuplicateRoles r 0 (first # rest) s1 = (dres, s2)"
        by (cases "deleteDuplicateRoles r 0 (first # rest) s1")
      from deleteDuplicateRoles_trace [of r 0 "first # rest" s1] D
      obtain ps where
        T2: "trace s2 = trace s1 @ map (\<lambda>p. ClientDeleteRole (fst p) (snd p)) ps"
        and pre: "prefix (map fst ps) rest"
        and fin: "dres = None \<longrightarrow>
                    map fst ps = rest \<and> (\<forall>p\<in>set ps. \<forall>e. snd p = Some e \<longrightarrow> IsNotFound e)"
        and bad: "\<forall>e. dres = Some e \<longrightarrow> \<not> IsNotFound e \<and> ps \<noteq> [] \<and> snd (last ps) = Some e"
        by auto
      show thesis
      proof (cases dres)
        case (Some e)
        with run L None Cons D have "res = Inl e" "s' = s2"
          by (simp_all add: ensureServiceCertKeyPairSecretRole_def)
        with Some None Cons L1 L2 T2 pre bad show thesis
          by (intro DeleteFailed [of first rest ps e]) simp_all
      next
        case dNone: None
        let ?x = "first\<lparr>Rules := Rules (desiredRole r cr)\<rparr>"
        obtain resp s3 where U: "UpdateRole r ?x s2 = (resp, s3)"
          by (cases "UpdateRole r ?x s2")
        from run L None Cons D dNone U
        have "res = (case resp of None \<Rightarrow> Inr (Name first) | Some e \<Rightarrow> Inl e)" "s' = s3"
          by (auto simp add: ensureServiceCertKeyPairSecretRole_def Let_def split: option.splits)
        with dNone None Cons L1 L2 T2 fin UpdateRole_trace [OF U] show thesis
          by (intro Updated [of first rest ps resp]) simp_all
      qed
    qed
  qed
qed

text \<open>The same four runs of \<^verbatim>\<open>ensureServiceCertKeyPairSecretRoleBinding\<close>.\<close>

lemma ensureRoleBinding_shape:
  fixes r :: "'w reconciler"
  assumes run: "ensureServiceCertKeyPairSecretRoleBinding r cr roleName s = (res, s')"
  obtains
    (ListFailed) e items where
      "fst (cache_ListRoleBindings r (componentRouteResources r cr) (world s)) = (Some e, items)"
      "trace s' = trace s @ [CacheListRoleBindings (componentRouteResources r cr) (Some e) items]"
      "res = Some e"
  | (Created) resp where
      "fst (cache_ListRoleBindings r (componentRouteResources r cr) (world s)) = (None, [])"
      "trace s' = trace s @ [CacheListRoleBindings (componentRouteResources r cr) None [],
                             ClientCreateRoleBinding (desiredRoleBinding r cr roleName) resp]"
      "res = resp"
  | (DeleteFailed) first rest ps e where
      "fst (cache_ListRoleBindings r (componentRouteResources r cr) (world s)) =
         (None, first # rest)"
      "trace s' = trace s
                    @ CacheListRoleBindings (componentRouteResources r cr) None (first # rest)
                      # map (\<lambda>p. ClientDeleteRoleBinding (fst p) (snd p)) ps"
      "prefix (map fst ps) rest" "ps \<noteq> []" "snd (last ps) = Some e" "\<not> IsNotFound e"
      "res = Some e"
  | (Updated) first rest ps resp where
      "fst (cache_ListRoleBindings r (componentRouteResources r cr) (world s)) =
         (None, first # rest)"
      "trace s' = trace s
                    @ CacheListRoleBindings (componentRouteResources r cr) None (first # rest)
                      # map (\<lambda>p. ClientDeleteRoleBinding (fst p) (snd p)) ps
                      @ [ClientUpdateRoleBinding
                           (first\<lparr>Subjects := Subjects (desiredRoleBinding r cr roleName),
                                  RoleRef := RoleRef (desiredRoleBinding r cr roleName)\<rparr>) resp]"
      "map fst ps = rest" "\<forall>p\<in>set ps. \<forall>e. snd p = Some e \<longrightarrow> IsNotFound e"
      "res = resp"
proof -
  let ?opts = "componentRouteResources r cr"
  let ?b = "desiredRoleBinding r cr roleName"
  obtain err items s1 where L: "ListRoleBindings r ?opts s = ((err, items), s1)"
    by (cases "ListRoleBindings r ?opts s") auto
  note L1 = ListRoleBindings_run [OF L, THEN conjunct1]
    and L2 = ListRoleBindings_run [OF L, THEN conjunct2]
  show thesis
  proof (cases err)
    case (Some e)
    with run L have "res = Some e" "s' = s1"
      by (simp_all add: ensureServiceCertKeyPairSecretRoleBinding_def)
    with Some L1 L2 show thesis
      by (intro ListFailed [of e items]) simp_all
  next
    case None
    show thesis
    proof (cases items)
      case Nil
      with run L None have C: "CreateRoleBinding r ?b s1 = (res, s')"
        by (simp add: ensureServiceCertKeyPairSecretRoleBinding_def)
      with None Nil L1 L2 CreateRoleBinding_trace [OF C] show thesis
        by (intro Created [of res]) simp_all
    next
      case (Cons first rest)
      obtain dres s2 where D: "deleteDuplicateRoleBindings r 0 (first # rest) s1 = (dres, s2)"
        by (cases "deleteDuplicateRoleBindings r 0 (first # rest) s1")
      from deleteDuplicateRoleBindings_trace [of r 0 "first # rest" s1] D
      obtain ps where
        T2: "trace s2 = trace s1 @ map (\<lambda>p. ClientDeleteRoleBinding (fst p) (snd p)) ps"
        and pre: "prefix (map fst ps) rest"
        and fin: "dres = None \<longrightarrow>
                    map fst ps = rest \<and> (\<forall>p\<in>set ps. \<forall>e. snd p = Some e \<longrightarrow> IsNotFound e)"
        and bad: "\<forall>e. dres = Some e \<longrightarrow> \<not> IsNotFound e \<and> ps \<noteq> [] \<and> snd (last ps) = Some e"
        by auto
      show thesis
      proof (cases dres)
        case (Some e)
        with run L None Cons D have "res = Some e" "s' = s2"
          by (simp_all add: ensureServiceCertKeyPairSecretRoleBinding_def)
        with Some None Cons L1 L2 T2 pre bad show thesis
          by (intro DeleteFailed [of first rest ps e]) simp_all
      next
        case dNone: None
        let ?x = "first\<lparr>Subjects := Subjects ?b, RoleRef := RoleRef ?b\<rparr>"
        from run L None Cons D dNone have U: "UpdateRoleBinding r ?x s2 = (res, s')"
          by (simp add: ensureServiceCertKeyPairSecretRoleBinding_def Let_def)
        with dNone None Cons L1 L2 T2 fin UpdateRoleBinding_trace [OF U] show thesis
          by (intro Updated [of first rest ps res]) simp_all
      qed
    qed
  qed
qed

section \<open>The runs of the garbage collection\<close>

text \<open>
  A run of \<^verbatim>\<open>cleanupOrphanedResources\<close> ends in the loop over the roles, with an error,
  or goes through it and lists the role bindings.
\<close>

lemma cleanup_shape:
  fixes r :: "'w reconciler"
  assumes run: "cleanupOrphanedResources r crs s = (res, s')"
  obtains
    (RolesLoopFailed) e1 roles ps err where
      "trace s' = trace s @ CacheListRoles (allComponentRouteResources r) e1 roles
                    # map (\<lambda>p. ClientDeleteRole (fst p) (snd p)) ps"
      "prefix (map fst ps) (filter (orphaned (cr_Hash ` set crs)) roles)"
      "res = Some err"
      "(err = Errorf ''Unable to find expected componentRoute hash label''
            \<and> (\<exists>x\<in>set roles. Labels x componentRouteHashLabelKey = None)
            \<and> (\<forall>p\<in>set ps. \<forall>e. snd p = Some e \<longrightarrow> IsNotFound e))
           \<or> (\<exists>e. err = ClientError e \<and> \<not> IsNotFound e \<and> ps \<noteq> []
                  \<and> snd (last ps) = Some e)"
  | (RolesLoopDone) e1 roles ps e2 roleBindings qs where
      "trace s' = trace s @ CacheListRoles (allComponentRouteResources r) e1 roles
                    # map (\<lambda>p. ClientDeleteRole (fst p) (snd p)) ps
                    @ CacheListRoleBindings (allComponentRouteResources r) e2 roleBindings
                    # map (\<lambda>p. ClientDeleteRoleBinding (fst p) (snd p)) qs"
      "map fst ps = filter (orphaned (cr_Hash ` set crs)) roles"
      "\<forall>x\<in>set roles. Labels x componentRouteHashLabelKey \<noteq> None"
      "\<forall>p\<in>set ps. \<forall>e. snd p = Some e \<longrightarrow> IsNotFound e"
      "prefix (map fst qs) (filter (orphaned (cr_Hash ` set crs)) roleBindings)"
      "res = None \<longrightarrow>
           map fst qs = filter (orphaned (cr_Hash ` set crs)) roleBindings
           \<and> (\<forall>x\<in>set roleBindings. Labels x componentRouteHashLabelKey \<noteq> None)"
      "\<forall>err. res = Some err \<longrightarrow>
           (err = Errorf ''Unable to find expected componentRoute hash label''
            \<and> (\<exists>x\<in>set roleBindings. Labels x componentRouteHashLabelKey = None)
            \<and> (\<forall>p\<in>set qs. \<forall>e. snd p = Some e \<longrightarrow> IsNotFound e))
           \<or> (\<exists>e. err = ClientError e \<and> \<not> IsNotFound e \<and> qs \<noteq> []
                  \<and> snd (last qs) = Some e)"
proof -
  let ?H = "cr_Hash ` set crs"
  let ?all = "allComponentRouteResources r"
  have H: "collectHashes crs {} = ?H" by (simp add: collectHashes_set)
  obtain e1 roles s1 where L: "ListRoles r ?all s = ((e1, roles), s1)"
    by (cases "ListRoles r ?all s") auto
  note L1 = ListRoles_run [OF L, THEN conjunct1]
  obtain res1 s2 where C: "cleanupRoles r ?H roles s1 = (res1, s2)"
    by (cases "cleanupRoles r ?H roles s1")
  from cleanupRoles_trace [of r ?H roles s1] C
  obtain ps where
    T2: "trace s2 = trace s1 @ map (\<lambda>p. ClientDeleteRole (fst p) (snd p)) ps"
    and pre: "prefix (map fst ps) (filter (orphaned ?H) roles)"
    and fin: "res1 = None \<longrightarrow>
           map fst ps = filter (orphaned ?H) roles
           \<and> (\<forall>x\<in>set roles. Labels x componentRouteHashLabelKey \<noteq> None)
           \<and> (\<forall>p\<in>set ps. \<forall>e. snd p = Some e \<longrightarrow> IsNotFound e)"
    and bad: "\<forall>err. res1 = Some err \<longrightarrow>
           (err = Errorf ''Unable to find expected componentRoute hash label''
            \<and> (\<exists>x\<in>set roles. Labels x componentRouteHashLabelKey = None)
            \<and> (\<forall>p\<in>set ps. \<forall>e. snd p = Some e \<longrightarrow> IsNotFound e))
           \<or> (\<exists>e. err = ClientError e \<and> \<not> IsNotFound e \<and> ps \<noteq> []
                  \<and> snd (last ps) = Some e)"
    by auto
  show thesis
  proof (cases res1)
    case (Some err)
    with run L C H have "res = Some err" "s' = s2"
      by (simp_all add: cleanupOrphanedResources_def)
    with Some L1 T2 pre bad show thesis
      by (intro RolesLoopFailed [of e1 roles ps err]) simp_all
  next
    case None
    obtain e2 roleBindings s3 where L': "ListRoleBindings r ?all s2 = ((e2, roleBindings), s3)"
      by (cases "ListRoleBindings r ?all s2") auto
    note L1' = ListRoleBindings_run [OF L', THEN conjunct1]
    from run L C H None L' have C': "cleanupRoleBindings r ?H roleBindings s3 = (res, s')"
      by (simp add: cleanupOrphanedResources_def)
    from cleanupRoleBindings_trace [of r ?H roleBindings s3] C'
    obtain qs where
      T3: "trace s' = trace s3 @ map (\<lambda>p. ClientDeleteRoleBinding (fst p) (snd p)) qs"
      and pre': "prefix (map fst qs) (filter (orphaned ?H) roleBindings)"
      and fin': "res = None \<longrightarrow>
           map fst qs = filter (orphaned ?H) roleBindings
           \<and> (\<forall>x\<in>set roleBindings. Labels x componentRouteHashLabelKey \<noteq> None)"
      and bad': "\<forall>err. res = Some err \<longrightarrow>
           (err = Errorf ''Unable to find expected componentRoute hash label''
            \<and> (\<exists>x\<in>set roleBindings. Labels x componentRouteHashLabelKey = None)
            \<and> (\<forall>p\<in>set qs. \<forall>e. snd p = Some e \<longrightarrow> IsNotFound e))
           \<or> (\<exists>e. err = ClientError e \<and> \<not> IsNotFound e \<and> qs \<noteq> []
                  \<and> snd (last qs) = Some e)"
      by auto
    from None fin L1 T2 L1' T3 pre' fin' bad' show thesis
      by (intro RolesLoopDone [of e1 roles ps e2 roleBindings qs]) simp_all
  qed
qed

section \<open>Correlation of role bindings and roles\<close>

lemma correlated_roleDeletes_only:
  "correlated n (map (\<lambda>p. ClientDeleteRole (fst p) (snd p)) ps) = True"
  using correlated_roleDeletes [of n ps "[]"] by simp

lemma ensureRole_correlated:
  assumes run: "ensureServiceCertKeyPairSecretRole r cr s = (res, s')"
  shows "\<exists>tr. trace s' = trace s @ tr
           \<and> (\<forall>roleName. res = Inr roleName \<longrightarrow>
                 (\<forall>n X. correlated n (tr @ X) = correlated (Some roleName) X))
           \<and> (\<forall>e. res = Inl e \<longrightarrow> (\<forall>n. correlated n tr))"
  using run
proof (cases rule: ensureRole_shape)
  case (ListFailed e items)
  then show ?thesis by simp
next
  case (Created resp)
  then show ?thesis by (cases resp) simp_all
next
  case (DeleteFailed first rest ps e)
  then show ?thesis by (simp add: correlated_roleDeletes_only)
next
  case (Updated first rest ps resp)
  then show ?thesis by (cases resp) (simp_all add: correlated_roleDeletes)
qed

lemma ensureRoleBinding_correlated:
  assumes run: "ensureServiceCertKeyPairSecretRoleBinding r cr roleName s = (res, s')"
  shows "\<exists>tr. trace s' = trace s @ tr
           \<and> (\<forall>X. correlated (Some roleName) (tr @ X) = correlated (Some roleName) X)"
  using run
proof (cases rule: ensureRoleBinding_shape)
  case (ListFailed e items)
  then show ?thesis by simp
next
  case (Created resp)
  then show ?thesis by (simp add: desiredRoleBinding_def)
next
  case (DeleteFailed first rest ps e)
  then show ?thesis by (simp add: correlated_roleBindingDeletes)
next
  case (Updated first rest ps resp)
  then show ?thesis by (simp add: correlated_roleBindingDeletes desiredRoleBinding_def)
qed

lemma ensureComponentRoutes_correlated:
  "\<exists>tr. trace (snd (ensureComponentRoutes r crs s)) = trace s @ tr \<and> (\<forall>n. correlated n tr)"
proof (induction crs arbitrary: s)
  case Nil
  show ?case by simp
next
  case (Cons cr crs)
  obtain res1 s1 where R: "ensureServiceCertKeyPairSecretRole r cr s = (res1, s1)"
    by (cases "ensureServiceCertKeyPairSecretRole r cr s")
  from ensureRole_correlated [OF R] obtain tr1 where
    T1: "trace s1 = trace s @ tr1"
    and ok1: "\<And>roleName n X. res1 = Inr roleName \<Longrightarrow>
                correlated n (tr1 @ X) = correlated (Some roleName) X"
    and bad1: "\<And>e n. res1 = Inl e \<Longrightarrow> correlated n tr1"
    by blast
  show ?case
  proof (cases res1)
    case (Inl e)
    with R T1 bad1 show ?thesis by simp
  next
    case (Inr roleName)
    obtain res2 s2 where
      B: "ensureServiceCertKeyPairSecretRoleBinding r cr roleName s1 = (res2, s2)"
      by (cases "ensureServiceCertKeyPairSecretRoleBinding r cr roleName s1")
    from ensureRoleBinding_correlated [OF B] obtain tr2 where
      T2: "trace s2 = trace s1 @ tr2"
      and ok2: "\<And>X. correlated (Some roleName) (tr2 @ X) = correlated (Some roleName) X"
      by blast
    show ?thesis
    proof (cases res2)
      case (Some e)
      have "correlated n (tr1 @ tr2) " for n
        using ok1 [OF Inr, of n tr2] ok2 [of "[]"] by simp
      with R Inr B Some T1 T2 show ?thesis by simp
    next
      case None
      from Cons.IH [of s2] obtain tr3 where
        T3: "trace (snd (ensureComponentRoutes r crs s2)) = trace s2 @ tr3"
        and ok3: "\<And>n. correlated n tr3"
        by blast
      have "correlated n (tr1 @ tr2 @ tr3)" for n
        using ok1 [OF Inr, of n "tr2 @ tr3"] ok2 [of tr3] ok3 by simp
      with R Inr B None T1 T2 T3 show ?thesis by simp
    qed
  qed
qed

section \<open>What the ensure functions create\<close>




section \<open>Runs on the collaborator with fixed answers\<close>

lemmas run_defs =
  fixedReconciler_def initial_def Get_def ListRoles_def ListRoleBindings_def CreateRole_def
  CreateRoleBinding_def UpdateRole_def UpdateRoleBinding_def DeleteRole_def
  DeleteRoleBinding_def componentRouteResources_def allComponentRouteResources_def
  cleanupOrphanedResources_def ensureServiceCertKeyPairSecretRole_def
  ensureServiceCertKeyPairSecretRoleBinding_def desiredRole_def desiredRoleBinding_def
  Reconcile_def since_def orphaned_def intersectingComponentRoutes_def namespacedName_def
  newAggregatedComponentRoute_def ServiceAccountKind_def Let_def

lemmas example_defs =
  exampleRole_def exampleRoleBinding_def exampleRoute_def clusterIngress_def route_def
  routeStatus_def fooRoute_def fooRole_def barRole_def fooRoleBinding_def barRoleBinding_def
  fooIngress_def

text \<open>
  A reconciliation of a cluster that is already as the ingress config asks: the role and the
  role binding of \<^verbatim>\<open>default/foo\<close> exist with the content the route gives them.
\<close>

lemma converged_cluster_run:
  "Reconcile (fixedReconciler (Inr fooIngress) (None, [fooRole]) (None, [fooRoleBinding]) None)
     clusterIngress initial =
   ((\<lparr>Requeue = False\<rparr>, None),
    \<lparr>world = (),
     trace =
       [CacheGet clusterIngress (Inr fooIngress),
        CacheListRoles
          [MatchingLabels [componentRouteHashLabelKey \<mapsto> ''default/foo''],
           InNamespace ''openshift-config''] None [fooRole],
        ClientUpdateRole fooRole None,
        CacheListRoleBindings
          [MatchingLabels [componentRouteHashLabelKey \<mapsto> ''default/foo''],
           InNamespace ''openshift-config''] None [fooRoleBinding],
        ClientUpdateRoleBinding fooRoleBinding None,
        CacheListRoles
          [HasLabels [componentRouteHashLabelKey], InNamespace ''openshift-config'']
          None [fooRole],
        CacheListRoleBindings
          [HasLabels [componentRouteHashLabelKey], InNamespace ''openshift-config'']
          None [fooRoleBinding]]\<rparr>)"
  by (simp add: run_defs example_defs)

section \<open>Convergence of one role and one role binding\<close>

text \<open>
  C2, as the code has it. When the list of roles that match the route's hash label has
  exactly one item, the function makes the list call and then one update call, of that item
  with its rules replaced by the route's rules, and returns the item's name if the update
  succeeds and the update's error otherwise: no create and no delete. The update is made
  whether or not the rules differ; when they are the same the object written is the object
  listed. The same holds for the role binding, with its subjects and its role reference.
\<close>

theorem single_match_is_always_updated:
  "(fst (cache_ListRoles r (componentRouteResources r componentRoute) (world s)) = (None, [role])
      \<longrightarrow> (\<exists>resp.
             since s (snd (ensureServiceCertKeyPairSecretRole r componentRoute s)) =
               [CacheListRoles (componentRouteResources r componentRoute) None [role],
                ClientUpdateRole (role\<lparr>Rules := Rules (desiredRole r componentRoute)\<rparr>) resp]
             \<and> fst (ensureServiceCertKeyPairSecretRole r componentRoute s) =
                 (case resp of None \<Rightarrow> Inr (Name role) | Some e \<Rightarrow> Inl e))
          \<and> (Rules role = Rules (desiredRole r componentRoute) \<longrightarrow>
                role\<lparr>Rules := Rules (desiredRole r componentRoute)\<rparr> = role))
   \<and> (fst (cache_ListRoleBindings r (componentRouteResources r componentRoute) (world s)) =
        (None, [roleBinding])
      \<longrightarrow> (\<exists>resp.
             since s (snd (ensureServiceCertKeyPairSecretRoleBinding r componentRoute roleName s)) =
               [CacheListRoleBindings (componentRouteResources r componentRoute) None [roleBinding],
                ClientUpdateRoleBinding
                  (roleBinding
                     \<lparr>Subjects := Subjects (desiredRoleBinding r componentRoute roleName),
                      RoleRef := RoleRef (desiredRoleBinding r componentRoute roleName)\<rparr>) resp]
             \<and> fst (ensureServiceCertKeyPairSecretRoleBinding r componentRoute roleName s) = resp)
          \<and> (Subjects roleBinding = Subjects (desiredRoleBinding r componentRoute roleName)
              \<and> RoleRef roleBinding = RoleRef (desiredRoleBinding r componentRoute roleName) \<longrightarrow>
                roleBinding
                  \<lparr>Subjects := Subjects (desiredRoleBinding r componentRoute roleName),
                   RoleRef := RoleRef (desiredRoleBinding r componentRoute roleName)\<rparr>
                = roleBinding))"
proof (intro conjI impI)
  assume L: "fst (cache_ListRoles r (componentRouteResources r componentRoute) (world s)) =
               (None, [role])"
  obtain res s' where run: "ensureServiceCertKeyPairSecretRole r componentRoute s = (res, s')"
    by (cases "ensureServiceCertKeyPairSecretRole r componentRoute s")
  from run show "\<exists>resp.
             since s (snd (ensureServiceCertKeyPairSecretRole r componentRoute s)) =
               [CacheListRoles (componentRouteResources r componentRoute) None [role],
                ClientUpdateRole (role\<lparr>Rules := Rules (desiredRole r componentRoute)\<rparr>) resp]
             \<and> fst (ensureServiceCertKeyPairSecretRole r componentRoute s) =
                 (case resp of None \<Rightarrow> Inr (Name role) | Some e \<Rightarrow> Inl e)"
  proof (cases rule: ensureRole_shape)
    case (ListFailed e items)
    with L show ?thesis by simp
  next
    case (Created resp)
    with L show ?thesis by simp
  next
    case (DeleteFailed first rest ps e)
    with L show ?thesis by simp
  next
    case (Updated first rest ps resp)
    with L have "first = role" "ps = []" by simp_all
    with Updated run show ?thesis
      by (intro exI [of _ resp]) (auto simp add: since_append split: option.splits)
  qed
next
  assume "Rules role = Rules (desiredRole r componentRoute)"
  then show "role\<lparr>Rules := Rules (desiredRole r componentRoute)\<rparr> = role" by simp
next
  assume L: "fst (cache_ListRoleBindings r (componentRouteResources r componentRoute) (world s)) =
               (None, [roleBinding])"
  obtain res s' where
    run: "ensureServiceCertKeyPairSecretRoleBinding r componentRoute roleName s = (res, s')"
    by (cases "ensureServiceCertKeyPairSecretRoleBinding r componentRoute roleName s")
  from run show "\<exists>resp.
             since s (snd (ensureServiceCertKeyPairSecretRoleBinding r componentRoute roleName s)) =
               [CacheListRoleBindings (componentRouteResources r componentRoute) None [roleBinding],
                ClientUpdateRoleBinding
                  (roleBinding
                     \<lparr>Subjects := Subjects (desiredRoleBinding r componentRoute roleName),
                      RoleRef := RoleRef (desiredRoleBinding r componentRoute roleName)\<rparr>) resp]
             \<and> fst (ensureServiceCertKeyPairSecretRoleBinding r componentRoute roleName s) = resp"
  proof (cases rule: ensureRoleBinding_shape)
    case (ListFailed e items)
    with L show ?thesis by simp
  next
    case (Created resp)
    with L show ?thesis by simp
  next
    case (DeleteFailed first rest ps e)
    with L show ?thesis by simp
  next
    case (Updated first rest ps resp)
    with L have "first = roleBinding" "ps = []" by simp_all
    with Updated run show ?thesis
      by (intro exI [of _ resp]) (auto simp add: since_append split: option.splits)
  qed
next
  assume "Subjects roleBinding = Subjects (desiredRoleBinding r componentRoute roleName)
              \<and> RoleRef roleBinding = RoleRef (desiredRoleBinding r componentRoute roleName)"
  then show "roleBinding
                  \<lparr>Subjects := Subjects (desiredRoleBinding r componentRoute roleName),
                   RoleRef := RoleRef (desiredRoleBinding r componentRoute roleName)\<rparr>
                = roleBinding" by simp
qed

text \<open>The theorem at a cluster with the one role and the one role binding of a route.\<close>

theorem single_match_is_always_updated_witness:
  "fst (cache_ListRoles (fixedReconciler (Inr fooIngress) (None, [fooRole]) (None, [fooRoleBinding]) None)
          (componentRouteResources
             (fixedReconciler (Inr fooIngress) (None, [fooRole]) (None, [fooRoleBinding]) None)
             fooRoute) (world initial)) = (None, [fooRole])
   \<and> updatedRoles (since initial (snd (ensureServiceCertKeyPairSecretRole
         (fixedReconciler (Inr fooIngress) (None, [fooRole]) (None, [fooRoleBinding]) None)
         fooRoute initial))) = [fooRole]
   \<and> fst (cache_ListRoleBindings
          (fixedReconciler (Inr fooIngress) (None, [fooRole]) (None, [fooRoleBinding]) None)
          (componentRouteResources
             (fixedReconciler (Inr fooIngress) (None, [fooRole]) (None, [fooRoleBinding]) None)
             fooRoute) (world initial)) = (None, [fooRoleBinding])
   \<and> updatedRoleBindings (since initial (snd (ensureServiceCertKeyPairSecretRoleBinding
         (fixedReconciler (Inr fooIngress) (None, [fooRole]) (None, [fooRoleBinding]) None)
         fooRoute ''foo-x7k2p'' initial))) = [fooRoleBinding]"
  using single_match_is_always_updated
    [where r = "fixedReconciler (Inr fooIngress) (None, [fooRole]) (None, [fooRoleBinding]) None"
       and componentRoute = fooRoute and s = initial and role = fooRole
       and roleBinding = fooRoleBinding and roleName = "''foo-x7k2p''"]
  by (simp add: run_defs example_defs)

text \<open>
  C2 as it is stated fails: on a cluster that is already converged (the one role and the one
  role binding have the content the route asks for) a reconciliation still makes an update
  call for the role and one for the role binding, each with the object as it was listed.
\<close>

theorem converged_cluster_is_written_again_counterexample:
  "listedRoles (since initial (snd (Reconcile
       (fixedReconciler (Inr fooIngress) (None, [fooRole]) (None, [fooRoleBinding]) None)
       clusterIngress initial))) = [fooRole, fooRole]
   \<and> Rules fooRole = Rules (desiredRole
       (fixedReconciler (Inr fooIngress) (None, [fooRole]) (None, [fooRoleBinding]) None) fooRoute)
   \<and> updatedRoles (since initial (snd (Reconcile
       (fixedReconciler (Inr fooIngress) (None, [fooRole]) (None, [fooRoleBinding]) None)
       clusterIngress initial))) = [fooRole]
   \<and> updatedRoleBindings (since initial (snd (Reconcile
       (fixedReconciler (Inr fooIngress) (None, [fooRole]) (None, [fooRoleBinding]) None)
       clusterIngress initial))) = [fooRoleBinding]"
  unfolding converged_cluster_run
  by (simp add: since_def initial_def desiredRole_def example_defs)

section \<open>Garbage collection\<close>

text \<open>
  C3. A run of the garbage collection creates and updates nothing. It lists the roles, then
  the role bindings, both with the options "has the hash label, in the config namespace".
  The roles it deletes are, in order, orphaned roles of the list (the hash label's value is
  not the hash of an active route), and so for the role bindings: an object whose hash is
  active is never deleted. When the run returns no error it has deleted every orphaned role
  and every orphaned role binding that was listed.
\<close>

theorem gc_deletes_the_orphans:
  assumes run: "cleanupOrphanedResources r componentRoutes s = (res, s')"
  shows "createdRoles (since s s') = [] \<and> createdRoleBindings (since s s') = []
     \<and> updatedRoles (since s s') = [] \<and> updatedRoleBindings (since s s') = []
     \<and> prefix (listOptions (since s s'))
          [allComponentRouteResources r, allComponentRouteResources r]
     \<and> prefix (deletedRoles (since s s'))
          (filter (orphaned (cr_Hash ` set componentRoutes)) (listedRoles (since s s')))
     \<and> prefix (deletedRoleBindings (since s s'))
          (filter (orphaned (cr_Hash ` set componentRoutes)) (listedRoleBindings (since s s')))
     \<and> (res = None \<longrightarrow>
          listOptions (since s s') = [allComponentRouteResources r, allComponentRouteResources r]
          \<and> deletedRoles (since s s') =
              filter (orphaned (cr_Hash ` set componentRoutes)) (listedRoles (since s s'))
          \<and> deletedRoleBindings (since s s') =
              filter (orphaned (cr_Hash ` set componentRoutes))
                (listedRoleBindings (since s s')))"
  using run
proof (cases rule: cleanup_shape)
  case (RolesLoopFailed e1 roles ps err)
  have tr: "since s s' = CacheListRoles (allComponentRouteResources r) e1 roles
                    # map (\<lambda>p. ClientDeleteRole (fst p) (snd p)) ps"
    using RolesLoopFailed(1) by (simp add: since_append)
  show ?thesis
    using RolesLoopFailed(2,3)
    by (simp add: tr projections_append roleDeletes_projections deleted_of_roleDeletes)
next
  case (RolesLoopDone e1 roles ps e2 roleBindings qs)
  have tr: "since s s' = CacheListRoles (allComponentRouteResources r) e1 roles
                    # map (\<lambda>p. ClientDeleteRole (fst p) (snd p)) ps
                    @ CacheListRoleBindings (allComponentRouteResources r) e2 roleBindings
                    # map (\<lambda>p. ClientDeleteRoleBinding (fst p) (snd p)) qs"
    using RolesLoopDone(1) by (simp add: since_append)
  show ?thesis
    using RolesLoopDone(2,5,6)
    by (simp add: tr projections_append roleDeletes_projections deleted_of_roleDeletes
          roleBindingDeletes_projections deleted_of_roleBindingDeletes)
qed

text \<open>
  The theorem at a cluster with the roles and role bindings of \<^verbatim>\<open>foo\<close> and \<^verbatim>\<open>bar\<close>, where
  only \<^verbatim>\<open>foo\<close> is active: the role and the role binding of \<^verbatim>\<open>bar\<close> are deleted.
\<close>

theorem gc_deletes_the_orphans_witness:
  "fst (cleanupOrphanedResources
          (fixedReconciler (Inr fooIngress) (None, [fooRole, barRole])
             (None, [fooRoleBinding, barRoleBinding]) None)
          [fooRoute] initial) = None
   \<and> deletedRoles (since initial (snd (cleanupOrphanedResources
          (fixedReconciler (Inr fooIngress) (None, [fooRole, barRole])
             (None, [fooRoleBinding, barRoleBinding]) None)
          [fooRoute] initial))) = [barRole]
   \<and> deletedRoleBindings (since initial (snd (cleanupOrphanedResources
          (fixedReconciler (Inr fooIngress) (None, [fooRole, barRole])
             (None, [fooRoleBinding, barRoleBinding]) None)
          [fooRoute] initial))) = [barRoleBinding]"
  using gc_deletes_the_orphans
    [where r = "fixedReconciler (Inr fooIngress) (None, [fooRole, barRole])
                  (None, [fooRoleBinding, barRoleBinding]) None"
       and componentRoutes = "[fooRoute]" and s = initial, OF prod.collapse [symmetric]]
  by (simp add: run_defs example_defs)

section \<open>Duplicates\<close>

text \<open>
  C4. When the list of roles that match the route's hash label is \<open>first # rest\<close>, the
  roles the function deletes are a prefix of \<open>rest\<close>: the first item is not deleted. In
  every run in which the client answered the deletes with no error or with NotFound, all of
  \<open>rest\<close> is deleted, nothing is created, and the run ends with the update of the first
  item, whose result is the result of the function: a NotFound on a delete does not end the
  run. The same holds for the role bindings.
\<close>

theorem duplicates_are_deleted_and_the_first_is_kept:
  "(fst (cache_ListRoles r (componentRouteResources r componentRoute) (world s)) =
        (None, first # rest)
      \<longrightarrow> prefix (deletedRoles (since s (snd (ensureServiceCertKeyPairSecretRole r componentRoute s))))
            rest
          \<and> ((\<forall>e\<in>set (deleteFailures
                        (since s (snd (ensureServiceCertKeyPairSecretRole r componentRoute s)))).
                 IsNotFound e)
              \<longrightarrow> deletedRoles (since s (snd (ensureServiceCertKeyPairSecretRole r componentRoute s)))
                    = rest
                  \<and> createdRoles
                      (since s (snd (ensureServiceCertKeyPairSecretRole r componentRoute s))) = []
                  \<and> (\<exists>resp.
                        last (since s (snd (ensureServiceCertKeyPairSecretRole r componentRoute s)))
                          = ClientUpdateRole
                              (first\<lparr>Rules := Rules (desiredRole r componentRoute)\<rparr>) resp
                        \<and> updatedRoles
                            (since s (snd (ensureServiceCertKeyPairSecretRole r componentRoute s)))
                          = [first\<lparr>Rules := Rules (desiredRole r componentRoute)\<rparr>]
                        \<and> fst (ensureServiceCertKeyPairSecretRole r componentRoute s) =
                            (case resp of None \<Rightarrow> Inr (Name first) | Some e \<Rightarrow> Inl e))))
   \<and> (fst (cache_ListRoleBindings r (componentRouteResources r componentRoute) (world s)) =
        (None, firstBinding # restBindings)
      \<longrightarrow> prefix (deletedRoleBindings
                    (since s (snd (ensureServiceCertKeyPairSecretRoleBinding r componentRoute
                                     roleName s))))
            restBindings
          \<and> ((\<forall>e\<in>set (deleteFailures
                        (since s (snd (ensureServiceCertKeyPairSecretRoleBinding r componentRoute
                                         roleName s)))).
                 IsNotFound e)
              \<longrightarrow> deletedRoleBindings
                    (since s (snd (ensureServiceCertKeyPairSecretRoleBinding r componentRoute
                                     roleName s)))
                    = restBindings
                  \<and> createdRoleBindings
                      (since s (snd (ensureServiceCertKeyPairSecretRoleBinding r componentRoute
                                       roleName s))) = []
                  \<and> (\<exists>resp.
                        last (since s (snd (ensureServiceCertKeyPairSecretRoleBinding r
                                              componentRoute roleName s)))
                          = ClientUpdateRoleBinding
                              (firstBinding
                                 \<lparr>Subjects := Subjects (desiredRoleBinding r componentRoute roleName),
                                  RoleRef := RoleRef (desiredRoleBinding r componentRoute roleName)\<rparr>)
                              resp
                        \<and> updatedRoleBindings
                            (since s (snd (ensureServiceCertKeyPairSecretRoleBinding r
                                              componentRoute roleName s)))
                          = [firstBinding
                               \<lparr>Subjects := Subjects (desiredRoleBinding r componentRoute roleName),
                                RoleRef := RoleRef (desiredRoleBinding r componentRoute roleName)\<rparr>]
                        \<and> fst (ensureServiceCertKeyPairSecretRoleBinding r componentRoute
                                 roleName s) = resp)))"
proof (rule conjI; rule impI)
  assume L: "fst (cache_ListRoles r (componentRouteResources r componentRoute) (world s)) =
               (None, first # rest)"
  obtain res s' where run: "ensureServiceCertKeyPairSecretRole r componentRoute s = (res, s')"
    by (cases "ensureServiceCertKeyPairSecretRole r componentRoute s")
  from run have P1: "prefix (deletedRoles (since s s')) rest"
  proof (cases rule: ensureRole_shape)
    case (ListFailed e items)
    with L show ?thesis by simp
  next
    case (Created resp)
    with L show ?thesis by simp
  next
    case (DeleteFailed first' rest' ps e)
    with L show ?thesis
      by (simp add: since_append projections_append deleted_of_roleDeletes)
  next
    case (Updated first' rest' ps resp)
    with L show ?thesis
      by (simp add: since_append projections_append deleted_of_roleDeletes)
  qed
  have P2: "deletedRoles (since s s') = rest \<and> createdRoles (since s s') = []
        \<and> (\<exists>resp. last (since s s')
                     = ClientUpdateRole (first\<lparr>Rules := Rules (desiredRole r componentRoute)\<rparr>) resp
                \<and> updatedRoles (since s s')
                     = [first\<lparr>Rules := Rules (desiredRole r componentRoute)\<rparr>]
                \<and> res = (case resp of None \<Rightarrow> Inr (Name first) | Some e \<Rightarrow> Inl e))"
    if soft: "\<forall>e\<in>set (deleteFailures (since s s')). IsNotFound e"
    using run
  proof (cases rule: ensureRole_shape)
    case (ListFailed e items)
    with L show ?thesis by simp
  next
    case (Created resp)
    with L show ?thesis by simp
  next
    case (DeleteFailed first' rest' ps e)
    from DeleteFailed(2) have "since s s' =
        CacheListRoles (componentRouteResources r componentRoute) None (first' # rest')
          # map (\<lambda>p. ClientDeleteRole (fst p) (snd p)) ps"
      by (simp add: since_append)
    with soft last_failure_in_roleDeletes [OF DeleteFailed(4,5)] DeleteFailed(6)
    show ?thesis by auto
  next
    case (Updated first' rest' ps resp)
    from Updated(2) have tr: "since s s' =
        CacheListRoles (componentRouteResources r componentRoute) None (first' # rest')
          # map (\<lambda>p. ClientDeleteRole (fst p) (snd p)) ps
          @ [ClientUpdateRole (first'\<lparr>Rules := Rules (desiredRole r componentRoute)\<rparr>) resp]"
      by (simp add: since_append)
    from L Updated(1) have eq: "first' = first" "rest' = rest" by simp_all
    show ?thesis
      using Updated(3,5)
      by (intro conjI exI [of _ resp])
         (simp_all add: tr eq projections_append deleted_of_roleDeletes roleDeletes_projections
            cong: option.case_cong)
  qed
  from P1 P2 show "prefix (deletedRoles
                    (since s (snd (ensureServiceCertKeyPairSecretRole r componentRoute s)))) rest
          \<and> ((\<forall>e\<in>set (deleteFailures
                        (since s (snd (ensureServiceCertKeyPairSecretRole r componentRoute s)))).
                 IsNotFound e)
              \<longrightarrow> deletedRoles (since s (snd (ensureServiceCertKeyPairSecretRole r componentRoute s)))
                    = rest
                  \<and> createdRoles
                      (since s (snd (ensureServiceCertKeyPairSecretRole r componentRoute s))) = []
                  \<and> (\<exists>resp.
                        last (since s (snd (ensureServiceCertKeyPairSecretRole r componentRoute s)))
                          = ClientUpdateRole
                              (first\<lparr>Rules := Rules (desiredRole r componentRoute)\<rparr>) resp
                        \<and> updatedRoles
                            (since s (snd (ensureServiceCertKeyPairSecretRole r componentRoute s)))
                          = [first\<lparr>Rules := Rules (desiredRole r componentRoute)\<rparr>]
                        \<and> fst (ensureServiceCertKeyPairSecretRole r componentRoute s) =
                            (case resp of None \<Rightarrow> Inr (Name first) | Some e \<Rightarrow> Inl e)))"
    by (simp add: run)
next
  let ?b = "desiredRoleBinding r componentRoute roleName"
  assume L: "fst (cache_ListRoleBindings r (componentRouteResources r componentRoute) (world s)) =
               (None, firstBinding # restBindings)"
  obtain res s' where
    run: "ensureServiceCertKeyPairSecretRoleBinding r componentRoute roleName s = (res, s')"
    by (cases "ensureServiceCertKeyPairSecretRoleBinding r componentRoute roleName s")
  from run have P1: "prefix (deletedRoleBindings (since s s')) restBindings"
  proof (cases rule: ensureRoleBinding_shape)
    case (ListFailed e items)
    with L show ?thesis by simp
  next
    case (Created resp)
    with L show ?thesis by simp
  next
    case (DeleteFailed first' rest' ps e)
    with L show ?thesis
      by (simp add: since_append projections_append deleted_of_roleBindingDeletes)
  next
    case (Updated first' rest' ps resp)
    with L show ?thesis
      by (simp add: since_append projections_append deleted_of_roleBindingDeletes)
  qed
  have P2: "deletedRoleBindings (since s s') = restBindings
        \<and> createdRoleBindings (since s s') = []
        \<and> (\<exists>resp. last (since s s')
                     = ClientUpdateRoleBinding
                         (firstBinding\<lparr>Subjects := Subjects ?b, RoleRef := RoleRef ?b\<rparr>) resp
                \<and> updatedRoleBindings (since s s')
                     = [firstBinding\<lparr>Subjects := Subjects ?b, RoleRef := RoleRef ?b\<rparr>]
                \<and> res = resp)"
    if soft: "\<forall>e\<in>set (deleteFailures (since s s')). IsNotFound e"
    using run
  proof (cases rule: ensureRoleBinding_shape)
    case (ListFailed e items)
    with L show ?thesis by simp
  next
    case (Created resp)
    with L show ?thesis by simp
  next
    case (DeleteFailed first' rest' ps e)
    from DeleteFailed(2) have "since s s' =
        CacheListRoleBindings (componentRouteResources r componentRoute) None (first' # rest')
          # map (\<lambda>p. ClientDeleteRoleBinding (fst p) (snd p)) ps"
      by (simp add: since_append)
    with soft last_failure_in_roleBindingDeletes [OF DeleteFailed(4,5)] DeleteFailed(6)
    show ?thesis by auto
  next
    case (Updated first' rest' ps resp)
    from Updated(2) have tr: "since s s' =
        CacheListRoleBindings (componentRouteResources r componentRoute) None (first' # rest')
          # map (\<lambda>p. ClientDeleteRoleBinding (fst p) (snd p)) ps
          @ [ClientUpdateRoleBinding
               (first'\<lparr>Subjects := Subjects ?b, RoleRef := RoleRef ?b\<rparr>) resp]"
      by (simp add: since_append)
    from L Updated(1) have eq: "first' = firstBinding" "rest' = restBindings" by simp_all
    show ?thesis
      using Updated(3,5)
      by (intro conjI exI [of _ resp])
         (simp_all add: tr eq projections_append deleted_of_roleBindingDeletes
            roleBindingDeletes_projections)
  qed
  from P1 P2 show "prefix (deletedRoleBindings
                    (since s (snd (ensureServiceCertKeyPairSecretRoleBinding r componentRoute
                                     roleName s))))
            restBindings
          \<and> ((\<forall>e\<in>set (deleteFailures
                        (since s (snd (ensureServiceCertKeyPairSecretRoleBinding r componentRoute
                                         roleName s)))).
                 IsNotFound e)
              \<longrightarrow> deletedRoleBindings
                    (since s (snd (ensureServiceCertKeyPairSecretRoleBinding r componentRoute
                                     roleName s)))
                    = restBindings
                  \<and> createdRoleBindings
                      (since s (snd (ensureServiceCertKeyPairSecretRoleBinding r componentRoute
                                       roleName s))) = []
                  \<and> (\<exists>resp.
                        last (since s (snd (ensureServiceCertKeyPairSecretRoleBinding r
                                              componentRoute roleName s)))
                          = ClientUpdateRoleBinding
                              (firstBinding
                                 \<lparr>Subjects := Subjects (desiredRoleBinding r componentRoute roleName),
                                  RoleRef := RoleRef (desiredRoleBinding r componentRoute roleName)\<rparr>)
                              resp
                        \<and> updatedRoleBindings
                            (since s (snd (ensureServiceCertKeyPairSecretRoleBinding r
                                              componentRoute roleName s)))
                          = [firstBinding
                               \<lparr>Subjects := Subjects (desiredRoleBinding r componentRoute roleName),
                                RoleRef := RoleRef (desiredRoleBinding r componentRoute roleName)\<rparr>]
                        \<and> fst (ensureServiceCertKeyPairSecretRoleBinding r componentRoute
                                 roleName s) = resp))"
    by (simp add: run)
qed

text \<open>
  The theorem at a cluster where two roles and two role bindings are listed and every delete
  is answered with NotFound.
\<close>

theorem duplicates_are_deleted_and_the_first_is_kept_witness:
  "fst (cache_ListRoles
          (fixedReconciler (Inr fooIngress) (None, [fooRole, barRole])
             (None, [fooRoleBinding, barRoleBinding]) (Some NotFound))
          (componentRouteResources
             (fixedReconciler (Inr fooIngress) (None, [fooRole, barRole])
                (None, [fooRoleBinding, barRoleBinding]) (Some NotFound)) fooRoute)
          (world initial)) = (None, [fooRole, barRole])
   \<and> deleteFailures (since initial (snd (ensureServiceCertKeyPairSecretRole
          (fixedReconciler (Inr fooIngress) (None, [fooRole, barRole])
             (None, [fooRoleBinding, barRoleBinding]) (Some NotFound)) fooRoute initial)))
       = [NotFound]
   \<and> deletedRoles (since initial (snd (ensureServiceCertKeyPairSecretRole
          (fixedReconciler (Inr fooIngress) (None, [fooRole, barRole])
             (None, [fooRoleBinding, barRoleBinding]) (Some NotFound)) fooRoute initial)))
       = [barRole]
   \<and> updatedRoles (since initial (snd (ensureServiceCertKeyPairSecretRole
          (fixedReconciler (Inr fooIngress) (None, [fooRole, barRole])
             (None, [fooRoleBinding, barRoleBinding]) (Some NotFound)) fooRoute initial)))
       = [fooRole]
   \<and> fst (ensureServiceCertKeyPairSecretRole
          (fixedReconciler (Inr fooIngress) (None, [fooRole, barRole])
             (None, [fooRoleBinding, barRoleBinding]) (Some NotFound)) fooRoute initial)
       = Inr ''foo-x7k2p''
   \<and> deletedRoleBindings (since initial (snd (ensureServiceCertKeyPairSecretRoleBinding
          (fixedReconciler (Inr fooIngress) (None, [fooRole, barRole])
             (None, [fooRoleBinding, barRoleBinding]) (Some NotFound)) fooRoute ''foo-x7k2p''
          initial)))
       = [barRoleBinding]
   \<and> fst (ensureServiceCertKeyPairSecretRoleBinding
          (fixedReconciler (Inr fooIngress) (None, [fooRole, barRole])
             (None, [fooRoleBinding, barRoleBinding]) (Some NotFound)) fooRoute ''foo-x7k2p''
          initial) = None"
  using duplicates_are_deleted_and_the_first_is_kept
    [where r = "fixedReconciler (Inr fooIngress) (None, [fooRole, barRole])
                  (None, [fooRoleBinding, barRoleBinding]) (Some NotFound)"
       and componentRoute = fooRoute and s = initial and first = fooRole and rest = "[barRole]"
       and firstBinding = fooRoleBinding and restBindings = "[barRoleBinding]"
       and roleName = "''foo-x7k2p''"]
  by (simp add: run_defs example_defs)

section \<open>Errors of the list calls in the garbage collection\<close>

text \<open>
  C5: the code drops the error of both list calls of the garbage collection. With a cache
  whose list calls fail, the garbage collection returns no error, and \<^verbatim>\<open>Reconcile\<close> of an
  ingress config without component routes returns success without a requeue.
\<close>

theorem gc_list_error_is_dropped:
  "cleanupOrphanedResources
     (fixedReconciler (Inr fooIngress) (Some (Failure ''list failed''), [])
        (Some (Failure ''list failed''), []) None) [] initial =
     (None,
      \<lparr>world = (),
       trace =
         [CacheListRoles
            [HasLabels [componentRouteHashLabelKey], InNamespace ''openshift-config'']
            (Some (Failure ''list failed'')) [],
          CacheListRoleBindings
            [HasLabels [componentRouteHashLabelKey], InNamespace ''openshift-config'']
            (Some (Failure ''list failed'')) []]\<rparr>)
   \<and> fst (Reconcile
        (fixedReconciler (Inr \<lparr>Spec_ComponentRoutes = [], Status_ComponentRoutes = []\<rparr>)
           (Some (Failure ''list failed''), []) (Some (Failure ''list failed''), []) None)
        clusterIngress initial) = (\<lparr>Requeue = False\<rparr>, None)"
  by (simp add: run_defs example_defs)

section \<open>Objects without the hash label\<close>

text \<open>
  C6. If a role or a role binding that the garbage collection listed has no hash label, the
  garbage collection returns an error; it is the error
  \<^verbatim>\<open>Unable to find expected componentRoute hash label\<close> unless a delete before it failed with
  an error other than NotFound. If every listed object has the label, that error is never
  returned. \<^verbatim>\<open>Reconcile\<close> returns the error of the garbage collection, wrapped, with a
  requeue.
\<close>

theorem missing_hash_label_is_an_error:
  assumes run: "cleanupOrphanedResources r componentRoutes s = (res, s')"
  shows "((\<exists>x\<in>set (listedRoles (since s s')). Labels x componentRouteHashLabelKey = None)
          \<or> (\<exists>x\<in>set (listedRoleBindings (since s s')).
                Labels x componentRouteHashLabelKey = None)
          \<longrightarrow> res \<noteq> None
              \<and> ((\<forall>e\<in>set (deleteFailures (since s s')). IsNotFound e) \<longrightarrow>
                   res = Some (Errorf ''Unable to find expected componentRoute hash label'')))
     \<and> ((\<forall>x\<in>set (listedRoles (since s s')). Labels x componentRouteHashLabelKey \<noteq> None)
          \<and> (\<forall>x\<in>set (listedRoleBindings (since s s')).
                Labels x componentRouteHashLabelKey \<noteq> None)
          \<longrightarrow> (\<forall>msg. res \<noteq> Some (Errorf msg)))
     \<and> (\<forall>request s0 ingress s1.
          Get r request s0 = (Inr ingress, s1)
          \<and> componentRoutes =
              intersectingComponentRoutes (util_Hash r)
                (Spec_ComponentRoutes ingress) (Status_ComponentRoutes ingress)
          \<and> ensureComponentRoutes r componentRoutes s1 = (None, s)
          \<longrightarrow> Reconcile r request s0 =
                (case res of
                   None \<Rightarrow> ((\<lparr>Requeue = False\<rparr>, None), s')
                 | Some err \<Rightarrow>
                     ((\<lparr>Requeue = True\<rparr>, Some (ErrorfV ''failed to delete role: %v'' err)), s')))"
proof -
  have labels: "((\<exists>x\<in>set (listedRoles (since s s')). Labels x componentRouteHashLabelKey = None)
          \<or> (\<exists>x\<in>set (listedRoleBindings (since s s')).
                Labels x componentRouteHashLabelKey = None)
          \<longrightarrow> res \<noteq> None
              \<and> ((\<forall>e\<in>set (deleteFailures (since s s')). IsNotFound e) \<longrightarrow>
                   res = Some (Errorf ''Unable to find expected componentRoute hash label'')))
     \<and> ((\<forall>x\<in>set (listedRoles (since s s')). Labels x componentRouteHashLabelKey \<noteq> None)
          \<and> (\<forall>x\<in>set (listedRoleBindings (since s s')).
                Labels x componentRouteHashLabelKey \<noteq> None)
          \<longrightarrow> (\<forall>msg. res \<noteq> Some (Errorf msg)))"
    using run
  proof (cases rule: cleanup_shape)
  case (RolesLoopFailed e1 roles ps err)
  have tr: "since s s' = CacheListRoles (allComponentRouteResources r) e1 roles
                    # map (\<lambda>p. ClientDeleteRole (fst p) (snd p)) ps"
    using RolesLoopFailed(1) by (simp add: since_append)
  have hard: "\<not> (\<forall>e\<in>set (deleteFailures (map (\<lambda>p. ClientDeleteRole (fst p) (snd p)) ps)).
                  IsNotFound e)"
    if "err = ClientError e" "\<not> IsNotFound e" "ps \<noteq> []" "snd (last ps) = Some e" for e
    using last_failure_in_roleDeletes [of ps e] that by blast
  show ?thesis
    using RolesLoopFailed(3,4) hard
    by (auto simp add: tr projections_append roleDeletes_projections)
next
  case (RolesLoopDone e1 roles ps e2 roleBindings qs)
  have tr: "since s s' = CacheListRoles (allComponentRouteResources r) e1 roles
                    # map (\<lambda>p. ClientDeleteRole (fst p) (snd p)) ps
                    @ CacheListRoleBindings (allComponentRouteResources r) e2 roleBindings
                    # map (\<lambda>p. ClientDeleteRoleBinding (fst p) (snd p)) qs"
    using RolesLoopDone(1) by (simp add: since_append)
  have hard: "\<not> (\<forall>e\<in>set (deleteFailures
                    (map (\<lambda>p. ClientDeleteRoleBinding (fst p) (snd p)) qs)). IsNotFound e)"
    if "\<not> IsNotFound e" "qs \<noteq> []" "snd (last qs) = Some e" for e
    using last_failure_in_roleBindingDeletes [of qs e] that by blast
  have lists: "listedRoles (since s s') = roles" "listedRoleBindings (since s s') = roleBindings"
    by (simp_all add: tr projections_append roleDeletes_projections
          roleBindingDeletes_projections)
  have fails: "deleteFailures (since s s') =
      deleteFailures (map (\<lambda>p. ClientDeleteRole (fst p) (snd p)) ps)
      @ deleteFailures (map (\<lambda>p. ClientDeleteRoleBinding (fst p) (snd p)) qs)"
    by (simp add: tr projections_append)
  show ?thesis
  proof (cases res)
    case None
    with RolesLoopDone(3,6) show ?thesis by (simp add: lists)
  next
    case (Some err)
    with RolesLoopDone(7) consider
      (label) "err = Errorf ''Unable to find expected componentRoute hash label''"
        "\<exists>x\<in>set roleBindings. Labels x componentRouteHashLabelKey = None"
      | (client) e where "err = ClientError e" "\<not> IsNotFound e" "qs \<noteq> []"
          "snd (last qs) = Some e"
      by blast
    then show ?thesis
    proof cases
      case label
      with Some show ?thesis by (simp add: lists)
    next
      case client
      with Some hard [of e] show ?thesis by (auto simp add: lists fails)
    qed
  qed
qed
  have reconcile: "Reconcile r request s0 =
                (case res of
                   None \<Rightarrow> ((\<lparr>Requeue = False\<rparr>, None), s')
                 | Some err \<Rightarrow>
                     ((\<lparr>Requeue = True\<rparr>, Some (ErrorfV ''failed to delete role: %v'' err)), s'))"
    if "Get r request s0 = (Inr ingress, s1)"
      and "componentRoutes =
              intersectingComponentRoutes (util_Hash r)
                (Spec_ComponentRoutes ingress) (Status_ComponentRoutes ingress)"
      and "ensureComponentRoutes r componentRoutes s1 = (None, s)"
    for request s0 ingress s1
    using that run by (simp add: Reconcile_def split: option.split)
  from labels reconcile show ?thesis by blast
qed

text \<open>
  The theorem at a cluster where the list of roles holds a role without labels: the garbage
  collection and \<^verbatim>\<open>Reconcile\<close> return the error.
\<close>

theorem missing_hash_label_is_an_error_witness:
  "listedRoles (since initial (snd (cleanupOrphanedResources
       (fixedReconciler (Inr fooIngress) (None, [fooRole, barRole\<lparr>Labels := Map.empty\<rparr>])
          (None, []) None) [fooRoute] initial)))
     = [fooRole, barRole\<lparr>Labels := Map.empty\<rparr>]
   \<and> Labels (barRole\<lparr>Labels := Map.empty\<rparr>) componentRouteHashLabelKey = None
   \<and> fst (cleanupOrphanedResources
       (fixedReconciler (Inr fooIngress) (None, [fooRole, barRole\<lparr>Labels := Map.empty\<rparr>])
          (None, []) None) [fooRoute] initial)
     = Some (Errorf ''Unable to find expected componentRoute hash label'')
   \<and> fst (Reconcile
       (fixedReconciler (Inr fooIngress) (None, [fooRole, barRole\<lparr>Labels := Map.empty\<rparr>])
          (None, [fooRoleBinding]) None) clusterIngress initial)
     = (\<lparr>Requeue = True\<rparr>,
        Some (ErrorfV ''failed to delete role: %v''
                (Errorf ''Unable to find expected componentRoute hash label'')))"
  using missing_hash_label_is_an_error
    [where r = "fixedReconciler (Inr fooIngress)
                  (None, [fooRole, barRole\<lparr>Labels := Map.empty\<rparr>]) (None, []) None"
       and componentRoutes = "[fooRoute]" and s = initial, OF prod.collapse [symmetric],
       THEN conjunct1]
  by (simp add: run_defs example_defs)

section \<open>The role a role binding refers to\<close>

text \<open>
  C8, as the code has it. In every run of the loop of \<^verbatim>\<open>Reconcile\<close> over the component
  routes, each role binding that is created or updated has as the name of its role reference
  the name that the role step just before it returned (the name the server gave on create, or
  the name of the existing role that was updated), and a role binding that is created has that
  name as its own name too.
\<close>

theorem role_bindings_refer_to_the_role_written:
  "correlated n (since s (snd (ensureComponentRoutes r componentRoutes s)))"
proof -
  from ensureComponentRoutes_correlated [of r componentRoutes s] obtain tr where
    "trace (snd (ensureComponentRoutes r componentRoutes s)) = trace s @ tr"
    and "\<And>n. correlated n tr" by blast
  then show ?thesis by (simp add: since_append)
qed

text \<open>The theorem at a run that creates the role and the role binding of a route.\<close>

theorem role_bindings_refer_to_the_role_written_witness:
  "correlated None (since initial (snd (ensureComponentRoutes
       (fixedReconciler (Inr fooIngress) (None, []) (None, []) None) [fooRoute] initial)))
   \<and> createdRoleBindings (since initial (snd (ensureComponentRoutes
       (fixedReconciler (Inr fooIngress) (None, []) (None, []) None) [fooRoute] initial)))
       = [fooRoleBinding]"
  using role_bindings_refer_to_the_role_written
    [where r = "fixedReconciler (Inr fooIngress) (None, []) (None, []) None"
       and componentRoutes = "[fooRoute]" and s = initial and n = None]
  by (simp add: run_defs example_defs)

text \<open>
  C8 as it is stated fails for the role binding's own name: an existing role binding is
  updated in place and keeps its name. Here the role step returns \<^verbatim>\<open>foo-x7k2p\<close>, and the
  role binding written is still named \<^verbatim>\<open>foo-old\<close>, with a role reference to
  \<^verbatim>\<open>foo-x7k2p\<close>.
\<close>

theorem existing_role_binding_keeps_its_name_counterexample:
  "fst (ensureServiceCertKeyPairSecretRole
          (fixedReconciler (Inr fooIngress) (None, [fooRole])
             (None, [exampleRoleBinding ''foo-old'' ''default/foo'' ''foo-old'' [''a'', ''b'']])
             None) fooRoute initial) = Inr ''foo-x7k2p''
   \<and> updatedRoleBindings (since initial (snd (Reconcile
          (fixedReconciler (Inr fooIngress) (None, [fooRole])
             (None, [exampleRoleBinding ''foo-old'' ''default/foo'' ''foo-old'' [''a'', ''b'']])
             None) clusterIngress initial))) =
       [exampleRoleBinding ''foo-old'' ''default/foo'' ''foo-x7k2p'' [''a'', ''b'']]
   \<and> Name (exampleRoleBinding ''foo-old'' ''default/foo'' ''foo-x7k2p'' [''a'', ''b''])
       = ''foo-old''"
  by (simp add: run_defs example_defs)

section \<open>Fetching the ingress config\<close>

text \<open>
  C9. If the cache answers the \<^verbatim>\<open>Get\<close> of the ingress config with an error, \<^verbatim>\<open>Reconcile\<close>
  makes no other call. If the error is NotFound it returns success without a requeue;
  otherwise it returns an error.
\<close>

theorem parent_fetch_errors:
  assumes "fst (cache_Get r request (world s)) = Inl err"
  shows "Reconcile r request s =
           ((\<lparr>Requeue = False\<rparr>,
             if IsNotFound err then None
             else Some (ErrorfQV ''failed to get ingress %q: %v'' request (ClientError err))),
            \<lparr>world = snd (cache_Get r request (world s)),
             trace = trace s @ [CacheGet request (Inl err)]\<rparr>)"
  using assms by (cases "cache_Get r request (world s)") (simp add: Reconcile_def Get_def)

text \<open>The theorem at a cache that answers NotFound, and at one that answers a timeout.\<close>

theorem parent_fetch_errors_witness:
  "fst (cache_Get (fixedReconciler (Inl NotFound) (None, []) (None, []) None) clusterIngress
          (world initial)) = Inl NotFound
   \<and> Reconcile (fixedReconciler (Inl NotFound) (None, []) (None, []) None) clusterIngress initial
       = ((\<lparr>Requeue = False\<rparr>, None),
          \<lparr>world = (), trace = [CacheGet clusterIngress (Inl NotFound)]\<rparr>)
   \<and> fst (Reconcile (fixedReconciler (Inl (Failure ''timeout'')) (None, []) (None, []) None)
            clusterIngress initial)
       = (\<lparr>Requeue = False\<rparr>,
          Some (ErrorfQV ''failed to get ingress %q: %v'' clusterIngress
                  (ClientError (Failure ''timeout''))))"
proof -
  have a: "fst (cache_Get (fixedReconciler (Inl NotFound) (None, []) (None, []) None)
             clusterIngress (world initial)) = Inl NotFound"
    by (simp add: fixedReconciler_def)
  have b: "fst (cache_Get (fixedReconciler (Inl (Failure ''timeout'')) (None, []) (None, []) None)
             clusterIngress (world initial)) = Inl (Failure ''timeout'')"
    by (simp add: fixedReconciler_def)
  show ?thesis
    using a parent_fetch_errors [OF a] parent_fetch_errors [OF b]
    by (simp add: fixedReconciler_def initial_def)
qed

section \<open>The content of created objects\<close>



end
